theory Spec2Isabelle
  imports Main "HOL-Library.Word" "HOL-Library.Char_ord" "HOL-Library.List_Lexorder"
begin

unbundle bit_operations_syntax

section \<open>JavaScript values used by the reader\<close>

text \<open>
  A JavaScript string is modelled as the list of its UTF-16 code units, restricted to
  units below 256, so that a \<^typ>\<open>char\<close> is one code unit. The relational operators
  of JavaScript on strings compare code units lexicographically; that is the order of
  \<^typ>\<open>string\<close> given by the imported character and list orders.
  Numbers that the program only uses as integers are \<^typ>\<open>int\<close> or \<^typ>\<open>nat\<close>;
  the results of \<open>parseInt\<close> and \<open>Number\<close> are doubles, modelled below.
\<close>

type_synonym byte = "8 word"

datatype error =
    TypeError       \<comment> \<open>property read or call on \<open>undefined\<close>\<close>
  | RangeError      \<comment> \<open>\<open>DataView\<close> or typed-array access outside the buffer\<close>
  | SyntaxError     \<comment> \<open>\<open>new RegExp\<close> on a source that is not a pattern\<close>
  | Thrown string   \<comment> \<open>\<open>throw '...'\<close> of the program itself\<close>
  | External        \<comment> \<open>failure inside a decompression library\<close>

definition bindE :: "error + 'a \<Rightarrow> ('a \<Rightarrow> error + 'b) \<Rightarrow> error + 'b" where
  "bindE m f = (case m of Inl e \<Rightarrow> Inl e | Inr x \<Rightarrow> f x)"

text \<open>\<open>String.prototype.toLowerCase\<close> on code units below 256.\<close>

definition lower_char :: "char \<Rightarrow> char" where
  "lower_char c = (let n = (of_char c :: nat) in
     if (65 \<le> n \<and> n \<le> 90) \<or> (192 \<le> n \<and> n \<le> 222 \<and> n \<noteq> 215)
     then char_of (n + 32) else c)"

definition toLowerCase :: "string \<Rightarrow> string" where
  "toLowerCase s = map lower_char s"

text \<open>\<open>String.prototype.trim\<close>: white space and line terminators below 256.\<close>

definition is_space :: "char \<Rightarrow> bool" where
  "is_space c = ((of_char c :: nat) \<in> {9, 10, 11, 12, 13, 32, 160})"

definition trim :: "string \<Rightarrow> string" where
  "trim s = rev (dropWhile is_space (rev (dropWhile is_space s)))"

text \<open>\<open>s.split(c)\<close> for a one-character separator: never the empty array.\<close>

fun js_split :: "char \<Rightarrow> string \<Rightarrow> string list" where
  "js_split c [] = [[]]"
| "js_split c (x # xs) =
     (if x = c then [] # js_split c xs
      else (x # hd (js_split c xs)) # tl (js_split c xs))"

text \<open>
  A JavaScript number is an IEEE 754 double: \<open>NaN\<close>, an infinity, or a finite
  value, which is an integer or an odd integer over a power of two
  (\<open>Dyadic m k\<close> is \<open>m / 2^k\<close> with \<open>m\<close> odd and \<open>k\<close> positive). The two zeros are
  one value here: the program neither divides by a number nor prints one.
\<close>

datatype number = NaN | Pos_Infinity | Neg_Infinity | Integer int | Dyadic int nat

fun negate :: "number \<Rightarrow> number" where
  "negate NaN = NaN"
| "negate Pos_Infinity = Neg_Infinity"
| "negate Neg_Infinity = Pos_Infinity"
| "negate (Integer n) = Integer (- n)"
| "negate (Dyadic m k) = Dyadic (- m) k"

text \<open>A number used as a condition: \<open>NaN\<close> and zero are false.\<close>

fun truthy :: "number \<Rightarrow> bool" where
  "truthy NaN = False"
| "truthy (Integer n) = (n \<noteq> 0)"
| "truthy other = True"

text \<open>\<open>ToInt32\<close>, which the bitwise operators apply to an operand.\<close>

fun ToInt32 :: "number \<Rightarrow> int" where
  "ToInt32 (Integer n) = (if 2147483648 \<le> n mod 4294967296 then n mod 4294967296 - 4294967296
                          else n mod 4294967296)"
| "ToInt32 (Dyadic m k) =
     (let n = (if m < 0 then - ((- m) div 2 ^ k) else m div 2 ^ k)
      in if 2147483648 \<le> n mod 4294967296 then n mod 4294967296 - 4294967296
         else n mod 4294967296)"
| "ToInt32 other = 0"

text \<open>
  The double nearest to the rational \<open>a / b\<close> (for \<open>a\<close> not negative and \<open>b\<close> positive),
  ties to the even significand: \<open>E\<close> is the binary exponent of the quotient, \<open>e\<close> the
  exponent of the last place of a 53-bit significand (not below that of the
  subnormal numbers), \<open>q'\<close> the rounded significand. A value of \<open>2^1024\<close> or more is
  infinite.
\<close>

function bit_length :: "int \<Rightarrow> nat" where
  "bit_length n = (if n \<le> 0 then 0 else Suc (bit_length (n div 2)))"
  by pat_completeness auto
termination
  by (relation "measure nat") auto

declare bit_length.simps [simp del]

fun dyadic :: "int \<Rightarrow> nat \<Rightarrow> number" where
  "dyadic m 0 = Integer m"
| "dyadic m (Suc k) = (if even m then dyadic (m div 2) k else Dyadic m (Suc k))"

definition to_double :: "int \<Rightarrow> int \<Rightarrow> number" where
  "to_double a b =
     (if a = 0 then Integer 0
      else
        (let l = int (bit_length a) - int (bit_length b);
             E = (if (if 0 \<le> l then b * 2 ^ nat l \<le> a else b \<le> a * 2 ^ nat (- l))
                  then l else l - 1);
             e = max (E - 52) (- 1074);
             num = (if e < 0 then a * 2 ^ nat (- e) else a);
             den = (if e < 0 then b else b * 2 ^ nat e);
             q = num div den;
             r = num mod den;
             q' = (if den < 2 * r \<or> (2 * r = den \<and> odd q) then q + 1 else q)
         in if 0 \<le> e
            then (if 2 ^ 1024 \<le> q' * 2 ^ nat e then Pos_Infinity else Integer (q' * 2 ^ nat e))
            else dyadic q' (nat (- e))))"

text \<open>Digits: decimal ones, and those of the radix-prefixed literals of \<open>Number\<close>.\<close>

definition is_digit :: "char \<Rightarrow> bool" where
  "is_digit c = (CHR ''0'' \<le> c \<and> c \<le> CHR ''9'')"

definition digit_val :: "char \<Rightarrow> int" where
  "digit_val c =
     (if CHR ''a'' \<le> c then of_char c - 87 else if CHR ''A'' \<le> c then of_char c - 55
      else of_char c - 48)"

definition in_radix :: "int \<Rightarrow> char \<Rightarrow> bool" where
  "in_radix r c =
     ((is_digit c \<or> (CHR ''a'' \<le> c \<and> c \<le> CHR ''f'') \<or> (CHR ''A'' \<le> c \<and> c \<le> CHR ''F''))
      \<and> digit_val c < r)"

definition digits_val :: "int \<Rightarrow> string \<Rightarrow> int" where
  "digits_val r ds = foldl (\<lambda>a c. r * a + digit_val c) 0 ds"

text \<open>
  \<open>parseInt(s, 10)\<close>: leading white space, an optional sign, then the longest run of
  decimal digits, whose value is rounded to a double; \<open>NaN\<close> without a digit.
  (Beyond twenty significant digits the language lets an implementation round a
  truncated decimal; the model rounds the exact one.)
\<close>

definition parseInt :: "string \<Rightarrow> number" where
  "parseInt s =
     (let t = dropWhile is_space s;
          neg = (t \<noteq> [] \<and> hd t = CHR ''-'');
          u = (if t \<noteq> [] \<and> (hd t = CHR ''-'' \<or> hd t = CHR ''+'') then tl t else t);
          ds = takeWhile is_digit u
      in if ds = [] then NaN
         else if neg then negate (to_double (digits_val 10 ds) 1)
         else to_double (digits_val 10 ds) 1)"

text \<open>
  \<open>Number(s)\<close>, the conversion of a string: surrounding white space is dropped; the
  empty string is 0; \<open>0x\<close>, \<open>0o\<close> and \<open>0b\<close> (in either case) start an unsigned
  literal of radix 16, 8 and 2; otherwise an optional sign is followed by
  \<open>Infinity\<close> or by decimal digits with an optional fraction and an optional
  exponent, of which the integer part or the fraction may be empty, not both.
  Anything else is \<open>NaN\<close>. The value is rounded to a double.
\<close>

definition exponent_part :: "string \<Rightarrow> int option" where
  "exponent_part s =
     (case s of
        [] \<Rightarrow> Some 0
      | c # cs \<Rightarrow>
          if c = CHR ''e'' \<or> c = CHR ''E''
          then (let ds = (if cs \<noteq> [] \<and> (hd cs = CHR ''-'' \<or> hd cs = CHR ''+'') then tl cs else cs)
                in if ds \<noteq> [] \<and> list_all is_digit ds
                   then Some (if hd cs = CHR ''-'' then - digits_val 10 ds else digits_val 10 ds)
                   else None)
          else None)"

definition unsigned_decimal :: "string \<Rightarrow> number" where
  "unsigned_decimal s =
     (if s = ''Infinity'' then Pos_Infinity
      else
        (let ip = takeWhile is_digit s;
             r1 = dropWhile is_digit s;
             dot = (r1 \<noteq> [] \<and> hd r1 = CHR ''.'');
             fp = (if dot then takeWhile is_digit (tl r1) else []);
             r2 = (if dot then dropWhile is_digit (tl r1) else r1)
         in if ip = [] \<and> fp = [] then NaN
            else (case exponent_part r2 of
                    None \<Rightarrow> NaN
                  | Some x \<Rightarrow>
                      (let k = x - int (length fp); m = digits_val 10 (ip @ fp)
                       in if 0 \<le> k then to_double (m * 10 ^ nat k) 1
                          else to_double m (10 ^ nat (- k))))))"

definition radix_of :: "char \<Rightarrow> int option" where
  "radix_of c =
     (if c = CHR ''x'' \<or> c = CHR ''X'' then Some 16
      else if c = CHR ''o'' \<or> c = CHR ''O'' then Some 8
      else if c = CHR ''b'' \<or> c = CHR ''B'' then Some 2
      else None)"

definition Number :: "string \<Rightarrow> number" where
  "Number s =
     (let t = trim s
      in case t of
           [] \<Rightarrow> Integer 0
         | c # cs \<Rightarrow>
             (case (if c = CHR ''0'' \<and> cs \<noteq> [] then radix_of (hd cs) else None) of
                Some r \<Rightarrow>
                  if tl cs \<noteq> [] \<and> list_all (in_radix r) (tl cs)
                  then to_double (digits_val r (tl cs)) 1 else NaN
              | None \<Rightarrow>
                  if c = CHR ''-'' then negate (unsigned_decimal cs)
                  else if c = CHR ''+'' then unsigned_decimal cs
                  else unsigned_decimal t))"

section \<open>Header attributes and key normalisation (util, mdict-parser)\<close>

text \<open>
  \<open>attrs\<close> of \<open>read_header_sect\<close>: the defaults of the \<open>HeaderSection\<close> literal,
  overwritten by the attributes of the XML root element. \<open>Encrypted\<close> is the one
  field the program turns into a number.
\<close>

record header_section =
  attrs :: "string \<rightharpoonup> string"
  Encrypted :: number

definition attr :: "header_section \<Rightarrow> string \<Rightarrow> string" where
  "attr h name = (case attrs h name of None \<Rightarrow> [] | Some v \<Rightarrow> v)"

definition default_attrs :: "string \<rightharpoonup> string" where
  "default_attrs = map_of
     [(''GeneratedByEngineVersion'', ''''), (''RequiredEngineVersion'', ''''),
      (''Encrypted'', ''0''), (''Format'', ''''), (''CreationDate'', ''''),
      (''Compact'', ''''), (''Compat'', ''''), (''KeyCaseSensitive'', ''''),
      (''Description'', ''''), (''Title'', ''''), (''DataSourceFormat'', ''''),
      (''StyleSheet'', ''''), (''RegisterBy'', ''''), (''RegCode'', ''''),
      (''StripKey'', '''')]"

datatype ext = Mdx | Mdd

text \<open>
  The character class \<open>[()., '/\\@_-]\<close> of \<open>REGEXP_STRIPKEY\<close>. For \<open>mdx\<close> every
  match is replaced by the empty group \<open>$1\<close>. For \<open>mdd\<close> the first alternative
  \<open>([.][^.]*$)\<close> matches at the last period and is replaced by itself, so the
  extension is kept as it stands.
\<close>

definition strip_chars :: "char list" where
  "strip_chars = ''()., /@_-'' @ [CHR 0x27, CHR 0x5C]"

definition strip_mdx :: "string \<Rightarrow> string" where
  "strip_mdx key = filter (\<lambda>c. c \<notin> set strip_chars) key"

fun strip_mdd :: "string \<Rightarrow> string" where
  "strip_mdd [] = []"
| "strip_mdd (c # cs) =
     (if c = CHR ''.'' \<and> CHR ''.'' \<notin> set cs then c # cs
      else if c \<in> set strip_chars then strip_mdd cs
      else c # strip_mdd cs)"

definition replace_strip :: "ext \<Rightarrow> string \<Rightarrow> string" where
  "replace_strip e key = (case e of Mdx \<Rightarrow> strip_mdx key | Mdd \<Rightarrow> strip_mdd key)"

definition isTrue :: "string \<Rightarrow> bool" where
  "isTrue v = (let w = toLowerCase (if v = [] then ''false'' else v)
               in w = ''yes'' \<or> w = ''true'')"

text \<open>
  \<open>getAdaptKey\<close> is a function of the module \<open>util\<close>; the arrow functions it returns
  read \<open>this.v2\<close> of \<open>getAdaptKey\<close>'s own receiver, which is not the scanner.
  The receiver is a parameter of the model: \<open>This_undefined\<close> for a call without a
  receiver in module code (the property read then throws), which is how
  \<open>read_header_sect\<close> calls the function; \<open>This_object b\<close> for a receiver object
  whose \<open>v2\<close> property is truthy exactly when \<open>b\<close> holds.
\<close>

datatype receiver = This_undefined | This_object bool

definition this_v2 :: "receiver \<Rightarrow> error + bool" where
  "this_v2 r = (case r of This_undefined \<Rightarrow> Inl TypeError | This_object b \<Rightarrow> Inr b)"

definition getAdaptKey :: "receiver \<Rightarrow> header_section \<Rightarrow> ext \<Rightarrow> string \<Rightarrow> error + string" where
  "getAdaptKey this h e =
     (if isTrue (attr h ''KeyCaseSensitive'')
      then (\<lambda>key. Inr (if isTrue (attr h ''StripKey'') then replace_strip e key else key))
      else (\<lambda>key.
         bindE (if attr h ''StripKey'' \<noteq> [] then Inr (attr h ''StripKey'')
                else bindE (this_v2 this) (\<lambda>v2. Inr (if v2 then '''' else ''yes'')))
           (\<lambda>flag. Inr (if isTrue flag then replace_strip e (toLowerCase key)
                         else toLowerCase key))))"

section \<open>The block scanner (class Scan)\<close>

text \<open>
  The text decoder, the two decompressors and the key-index decryptor are libraries
  outside the repository; the scanner takes them as parameters. \<open>new TextDecoder\<close>
  throws a \<open>RangeError\<close> for a label that \<open>known_label\<close> does not hold of.
  \<open>None\<close> from a decompressor stands for the exception it throws.
\<close>

record platform =
  known_label :: "string \<Rightarrow> bool"
  decode :: "string \<Rightarrow> byte list \<Rightarrow> string"
  inflate :: "byte list \<Rightarrow> byte list option"
  lzo_decompress :: "byte list \<Rightarrow> int \<Rightarrow> byte list option"
  decrypt :: "byte list \<Rightarrow> byte list \<Rightarrow> byte list"

text \<open>
  The fields the constructor sets once (\<open>Encoding\<close>, \<open>v2\<close>) and the cursor
  (\<open>buf\<close>, and \<open>offset\<close> under the name \<open>scan_offset\<close>). \<open>bpu\<close> and
  \<open>tail\<close> are assigned in the constructor from \<open>Encoding\<close> and \<open>v2\<close> and never
  again, so they are functions of these.
\<close>

record scan =
  lib :: platform
  Encoding :: string
  v2 :: bool
  buf :: "byte list"
  scan_offset :: int

definition bpu :: "scan \<Rightarrow> nat" where
  "bpu s = (if Encoding s = ''UTF-16'' then 2 else 1)"

definition tail :: "scan \<Rightarrow> nat" where
  "tail s = (if v2 s then bpu s else 0)"

definition js_or :: "string \<Rightarrow> string \<Rightarrow> string" where
  "js_or a b = (if a \<noteq> [] then a else b)"

text \<open>\<open>n >= 2.0\<close>.\<close>

fun ge_2 :: "number \<Rightarrow> bool" where
  "ge_2 (Integer n) = (2 \<le> n)"
| "ge_2 (Dyadic m k) = (2 * 2 ^ k \<le> m)"
| "ge_2 Pos_Infinity = True"
| "ge_2 other = False"

text \<open>
  The constructor: it writes the default of \<open>Encoding\<close> back into the attributes,
  creates the decoder for that label, which may throw, and reads the engine version.
\<close>

definition new_Scan :: "platform \<Rightarrow> header_section \<Rightarrow> error + (scan \<times> header_section)" where
  "new_Scan p h =
     (let enc = js_or (attr h ''Encoding'') ''UTF-16'';
          h' = h\<lparr>attrs := (attrs h)(''Encoding'' \<mapsto> enc)\<rparr>
      in if known_label p (js_or enc ''UTF-16LE'')
         then Inr (\<lparr>lib = p, Encoding = enc,
                    v2 = ge_2 (parseInt (attr h' ''GeneratedByEngineVersion'')),
                    buf = [], scan_offset = 0\<rparr>, h')
         else Inl RangeError)"

definition init :: "byte list \<Rightarrow> scan \<Rightarrow> scan" where
  "init b s = s\<lparr>scan_offset := 0, buf := b\<rparr>"

definition forward :: "int \<Rightarrow> scan \<Rightarrow> scan" where
  "forward len s = s\<lparr>scan_offset := scan_offset s + len\<rparr>"

text \<open>\<open>DataView\<close> reads, big endian; outside the buffer they throw \<open>RangeError\<close>.\<close>

definition getUint8 :: "byte list \<Rightarrow> int \<Rightarrow> error + int" where
  "getUint8 b i =
     (if 0 \<le> i \<and> i + 1 \<le> int (length b) then Inr (uint (b ! nat i)) else Inl RangeError)"

definition getUint16 :: "byte list \<Rightarrow> int \<Rightarrow> error + int" where
  "getUint16 b i =
     (if 0 \<le> i \<and> i + 2 \<le> int (length b)
      then Inr (uint (b ! nat i) * 256 + uint (b ! (nat i + 1)))
      else Inl RangeError)"

definition getUint32 :: "byte list \<Rightarrow> int \<Rightarrow> error + int" where
  "getUint32 b i =
     (if 0 \<le> i \<and> i + 4 \<le> int (length b)
      then Inr (uint (b ! nat i) * 16777216 + uint (b ! (nat i + 1)) * 65536
                + uint (b ! (nat i + 2)) * 256 + uint (b ! (nat i + 3)))
      else Inl RangeError)"

text \<open>\<open>new Uint8Array(buf, offset, len)\<close>: a view, \<open>RangeError\<close> outside the buffer.\<close>

definition Uint8Array :: "byte list \<Rightarrow> int \<Rightarrow> int \<Rightarrow> error + byte list" where
  "Uint8Array b i len =
     (if 0 \<le> i \<and> 0 \<le> len \<and> i + len \<le> int (length b)
      then Inr (take (nat len) (drop (nat i) b)) else Inl RangeError)"

definition readInt :: "scan \<Rightarrow> error + (int \<times> scan)" where
  "readInt s = bindE (getUint32 (buf s) (scan_offset s)) (\<lambda>v. Inr (v, forward 4 s))"

definition readUint16 :: "scan \<Rightarrow> error + (int \<times> scan)" where
  "readUint16 s = bindE (getUint16 (buf s) (scan_offset s)) (\<lambda>v. Inr (v, forward 2 s))"

definition readUint8 :: "scan \<Rightarrow> error + (int \<times> scan)" where
  "readUint8 s = bindE (getUint8 (buf s) (scan_offset s)) (\<lambda>v. Inr (v, forward 1 s))"

text \<open>
  \<open>readNum\<close> and \<open>readShort\<close> as the constructor installs them: for engine version
  2 and above \<open>readNum\<close> is \<open>this.forward(4); return this.readInt()\<close>.
\<close>

definition readNum :: "scan \<Rightarrow> error + (int \<times> scan)" where
  "readNum s = (if v2 s then readInt (forward 4 s) else readInt s)"

definition readShort :: "scan \<Rightarrow> error + (int \<times> scan)" where
  "readShort s = (if v2 s then readUint16 s else readUint8 s)"

text \<open>
  \<open>searchTextLen\<close>: the two scanning loops. Each returns the offset at which the
  terminator was found; the caller subtracts the mark.
\<close>

function scan_nul16 :: "byte list \<Rightarrow> int \<Rightarrow> error + int" where
  "scan_nul16 b i =
     (case getUint16 b i of
        Inl e \<Rightarrow> Inl e
      | Inr u \<Rightarrow> if u \<noteq> 0 then scan_nul16 b (i + 2) else Inr i)"
  by pat_completeness auto
termination
  by (relation "measure (\<lambda>(b, i). nat (int (length b) - i))")
     (auto simp: getUint16_def split: if_splits)

declare scan_nul16.simps [simp del]

function scan_nul8 :: "byte list \<Rightarrow> int \<Rightarrow> error + int" where
  "scan_nul8 b i =
     (case getUint8 b i of
        Inl e \<Rightarrow> Inl e
      | Inr u \<Rightarrow> if u \<noteq> 0 then scan_nul8 b (i + 1) else Inr i)"
  by pat_completeness auto
termination
  by (relation "measure (\<lambda>(b, i). nat (int (length b) - i))")
     (auto simp: getUint8_def split: if_splits)

declare scan_nul8.simps [simp del]

definition searchTextLen :: "scan \<Rightarrow> error + int" where
  "searchTextLen s =
     (if Encoding s = ''UTF-16''
      then bindE (scan_nul16 (buf s) (scan_offset s)) (\<lambda>i. Inr (i - scan_offset s))
      else bindE (scan_nul8 (buf s) (scan_offset s)) (\<lambda>i. Inr (i - scan_offset s)))"

definition readText :: "scan \<Rightarrow> error + (string \<times> scan)" where
  "readText s =
     bindE (searchTextLen s) (\<lambda>len.
     bindE (Uint8Array (buf s) (scan_offset s) len) (\<lambda>bytes.
       Inr (decode (lib s) (Encoding s) bytes, forward (len + int (bpu s)) s)))"

definition readTextSized :: "int \<Rightarrow> scan \<Rightarrow> error + (string \<times> scan)" where
  "readTextSized n s =
     (let len = n * int (bpu s)
      in bindE (Uint8Array (buf s) (scan_offset s) len) (\<lambda>bytes.
           Inr (decode (lib s) (Encoding s) bytes, forward (len + int (tail s)) s)))"

text \<open>
  \<open>readBlock\<close>: compression type 0 continues on the same buffer (eight bytes further
  for version 2); any other type takes \<open>len - 8\<close> bytes after the eight header bytes,
  decrypts them if a decryptor is passed, inflates for type 2 and runs LZO otherwise,
  and returns the scanner re-initialised on the result.
\<close>

definition readBlock :: "int \<Rightarrow> int \<Rightarrow> bool \<Rightarrow> scan \<Rightarrow> error + scan" where
  "readBlock len expectedBufSize decryptor s =
     bindE (getUint8 (buf s) (scan_offset s)) (\<lambda>comp_type.
       if comp_type = 0 then Inr (if v2 s then forward 8 s else s)
       else
         bindE (Uint8Array (buf s) (scan_offset s + 8) (len - 8)) (\<lambda>tmp.
         bindE (if decryptor
                then bindE (Uint8Array (buf s) (scan_offset s + 4) 4) (\<lambda>chk.
                       Inr (decrypt (lib s) tmp (chk @ [0x95, 0x36, 0x00, 0x00])))
                else Inr tmp) (\<lambda>tmp.
           case (if comp_type = 2 then inflate (lib s) tmp
                 else lzo_decompress (lib s) tmp expectedBufSize) of
             None \<Rightarrow> Inl External
           | Some out \<Rightarrow> Inr (init out s))))"

section \<open>Stylesheet (getGlobalStyle, parseRes)\<close>

text \<open>
  A JavaScript array with holes: \<open>None\<close> is an index that was never assigned.
  Reading past the end gives \<open>undefined\<close>; assigning past the end extends the array.
\<close>

definition arr_get :: "'a option list \<Rightarrow> nat \<Rightarrow> 'a option" where
  "arr_get xs i = (if i < length xs then xs ! i else None)"

definition arr_set :: "'a option list \<Rightarrow> nat \<Rightarrow> 'a \<Rightarrow> 'a option list" where
  "arr_set xs i v =
     (if i < length xs then xs[i := Some v]
      else xs @ replicate (i - length xs) None @ [Some v])"

text \<open>An element of a string array used in a concatenation: \<open>undefined\<close> prints as such.\<close>

definition str_at :: "string list \<Rightarrow> nat \<Rightarrow> string" where
  "str_at xs i = (if i < length xs then xs ! i else ''undefined'')"

text \<open>
  \<open>style[num]\<close>: the property named by the number. An array has such a property
  only for an integer below its length that is not a hole.
\<close>

definition style_at :: "string list option list \<Rightarrow> number \<Rightarrow> string list option" where
  "style_at style num =
     (case num of
        Integer n \<Rightarrow> if 0 \<le> n \<and> n < int (length style) then style ! nat n else None
      | _ \<Rightarrow> None)"

definition style_step :: "string list option list \<times> nat \<Rightarrow> string \<Rightarrow> string list option list \<times> nat" where
  "style_step st e =
     (let res = fst st; i = snd st
      in if e = [] then (res, i)
         else if Number e = NaN
         then (let res1 = (if arr_get res i = None then arr_set res i [[]] else res);
                   entry = (case arr_get res1 i of None \<Rightarrow> [] | Some en \<Rightarrow> en)
               in (if CHR ''/'' \<notin> set e
                   then arr_set res1 i ((str_at entry 0 @ '' '' @ e) # tl entry)
                   else arr_set res1 i (entry @ [e]), i))
         else (res, i + 1))"

definition getGlobalStyle :: "string \<Rightarrow> string list option list" where
  "getGlobalStyle stylesheet = fst (foldl style_step ([], 0) (js_split CHR '' '' stylesheet))"

text \<open>
  The loop of \<open>parseRes\<close> over the pieces between backticks. A piece that is a
  non-zero number consumes the piece after it (\<open>split[++k]\<close>); a piece that is not
  adds nothing to \<open>result\<close>. \<open>style[num]\<close> that is \<open>undefined\<close> makes the
  property read throw.
\<close>

fun parseRes_loop :: "string list option list \<Rightarrow> string \<Rightarrow> string list \<Rightarrow> error + string" where
  "parseRes_loop style result [] = Inr result"
| "parseRes_loop style result [t] =
     (if t \<noteq> [] \<and> truthy (Number t)
      then (case style_at style (Number t) of
              None \<Rightarrow> Inl TypeError
            | Some entry \<Rightarrow> Inr (result @ str_at entry 0 @ ''undefined'' @ str_at entry 1))
      else Inr result)"
| "parseRes_loop style result (t # u # rest) =
     (if t \<noteq> [] \<and> truthy (Number t)
      then (case style_at style (Number t) of
              None \<Rightarrow> Inl TypeError
            | Some entry \<Rightarrow>
                parseRes_loop style (result @ str_at entry 0 @ u @ str_at entry 1) rest)
      else parseRes_loop style result (u # rest))"

definition parseRes :: "string \<Rightarrow> string list option list \<Rightarrow> error + string" where
  "parseRes str style = parseRes_loop style [] (js_split (CHR 0x60) str)"

section \<open>The reader (classes MDictParser and Mdict)\<close>

text \<open>
  One element of \<open>KEY_INDEX\<close>, as \<open>read_keyword_index\<close> builds it. (Several
  objects of the source have a property \<open>offset\<close>, \<open>comp_size\<close> or
  \<open>decomp_size\<close>; the key entry and the key index element keep these names, the
  scanner, the trail and the block descriptor carry a prefix.)
\<close>

record kdx =
  num_entries :: nat
  first_word :: string
  last_word :: string
  comp_size :: int
  decomp_size :: int
  kdx_offset :: int   \<comment> \<open>\<open>offset\<close> of the key block in the key block area\<close>
  index :: nat

text \<open>
  One element of a decoded key block: \<open>{word, offset}\<close>, and \<open>size\<close> once the next
  element is read (\<open>None\<close> is \<open>undefined\<close>).
\<close>

record key_entry =
  word :: string
  offset :: int
  size :: "int option"

text \<open>\<open>this.trail\<close>; \<open>exhausted\<close> is false while the property is absent.\<close>

record trail =
  phrase :: string
  block :: nat
  trail_offset :: int
  pos :: nat
  count :: nat
  total :: nat
  exhausted :: bool

record mdict =
  ext :: ext
  read :: "int \<Rightarrow> int \<Rightarrow> byte list"
  headerSection :: header_section
  scan :: scan
  keywordIndexDecryptor :: bool
  adaptKey :: "string \<Rightarrow> error + string"
  StyleSheet :: "string list option list"
  KEY_INDEX :: "kdx list"
  RECORD_BLOCK_TABLE :: "int list"
  slicedKeyBlock :: "byte list"
  cached_keys :: "(key_entry list \<times> string) option"
  mutual_ticket :: nat
  trail :: "trail option"

text \<open>
  \<open>read_header_sect\<close>. Decoding the header bytes and parsing the XML are done by
  libraries; the model starts from what they deliver: the attributes of the
  \<open>Dictionary\<close> or \<open>Library_Data\<close> element, in document order, or \<open>None\<close>
  when there is no such element (\<open>xml.attributes\<close> then throws). The receiver of
  the call \<open>getAdaptKey(attrs, this.ext)\<close> is the first parameter; the call is
  written without one. \<open>parseInt(...) || 0\<close> replaces \<open>NaN\<close> by 0, and
  \<open>attrs.Encrypted & 0x02\<close> is taken on the 32-bit integer of the number.
\<close>

definition read_header_sect ::
  "receiver \<Rightarrow> platform \<Rightarrow> (string \<times> string) list option \<Rightarrow> int \<Rightarrow> mdict \<Rightarrow> error + (int \<times> mdict)" where
  "read_header_sect this p xml len rd =
     (case xml of
        None \<Rightarrow> Inl TypeError
      | Some items \<Rightarrow>
          (let a0 = foldl (\<lambda>m item. m(fst item \<mapsto> snd item)) default_attrs items;
               n = parseInt (case a0 ''Encrypted'' of None \<Rightarrow> [] | Some v \<Rightarrow> v);
               h0 = \<lparr>attrs = a0, Encrypted = (if truthy n then n else Integer 0)\<rparr>
           in bindE (new_Scan p h0) (\<lambda>made.
                let sc = fst made; h = snd made
                in Inr (len + 4,
                     rd\<lparr>headerSection := h,
                        scan := sc,
                        keywordIndexDecryptor :=
                          (if ToInt32 (Encrypted h) AND 2 \<noteq> 0 then True
                           else keywordIndexDecryptor rd),
                        adaptKey := getAdaptKey this h (ext rd),
                        StyleSheet := getGlobalStyle (attr h ''StyleSheet'')\<rparr>))))"

section \<open>Two-tier keyword search (reduce, shrink, loadKeys, seekVanguard)\<close>

text \<open>
  \<open>reduce\<close>: \<open>arr[0]\<close> of an empty array is \<open>undefined\<close> (\<open>None\<close>).
  \<open>len >> 1\<close> on an array length is division by two.
\<close>

function reduce :: "(string \<Rightarrow> error + string) \<Rightarrow> kdx list \<Rightarrow> string \<Rightarrow> error + kdx option" where
  "reduce ak arr phr =
     (if length arr > 1
      then (case ak (last_word (arr ! (length arr div 2 - 1))) of
              Inl e \<Rightarrow> Inl e
            | Inr k \<Rightarrow>
                if phr > k then reduce ak (drop (length arr div 2) arr) phr
                else reduce ak (take (length arr div 2) arr) phr)
      else Inr (case arr of [] \<Rightarrow> None | x # _ \<Rightarrow> Some x))"
  by pat_completeness auto
termination
  by (relation "measure (\<lambda>(ak, arr, phr). length arr)") auto

declare reduce.simps [simp del]

text \<open>
  \<open>shrink\<close>: the property \<open>pos\<close> that the slices carry is the second-last
  parameter; \<open>(arr.pos || 0)\<close> reads an absent \<open>pos\<close> as 0, which is what the first
  call passes. \<open>arr[0].word\<close> on an empty array throws.
\<close>

function shrink :: "(string \<Rightarrow> error + string) \<Rightarrow> key_entry list \<Rightarrow> nat \<Rightarrow> string \<Rightarrow> error + nat" where
  "shrink ak arr p phr =
     (if length arr > 1
      then (case ak (word (arr ! (length arr div 2))) of
              Inl e \<Rightarrow> Inl e
            | Inr key \<Rightarrow>
                if phr < key then shrink ak (take (length arr div 2) arr) p phr
                else shrink ak (drop (length arr div 2) arr) (p + length arr div 2) phr)
      else (case arr of
              [] \<Rightarrow> Inl TypeError
            | x # _ \<Rightarrow>
                (case ak (word x) of
                   Inl e \<Rightarrow> Inl e
                 | Inr k \<Rightarrow> Inr (p + (if phr \<le> k then 0 else 1)))))"
  by pat_completeness auto
termination
  by (relation "measure (\<lambda>(ak, arr, p, phr). length arr)") auto

declare shrink.simps [simp del]

text \<open>
  The decoding loop of \<open>loadKeys\<close>: \<open>n\<close> entries still to read, \<open>acc\<close> the list so
  far; reading entry \<open>i > 0\<close> also sets \<open>size\<close> of entry \<open>i - 1\<close>.
\<close>

definition set_last_size :: "key_entry list \<Rightarrow> int \<Rightarrow> key_entry list" where
  "set_last_size acc off =
     (if acc = [] then []
      else butlast acc @ [(last acc)\<lparr>size := Some (off - offset (last acc))\<rparr>])"

fun read_keys :: "nat \<Rightarrow> scan \<Rightarrow> key_entry list \<Rightarrow> error + key_entry list" where
  "read_keys 0 s acc = Inr acc"
| "read_keys (Suc n) s acc =
     (case readNum s of
        Inl e \<Rightarrow> Inl e
      | Inr (off, s1) \<Rightarrow>
          (case readText s1 of
             Inl e \<Rightarrow> Inl e
           | Inr (w, s2) \<Rightarrow>
               read_keys n s2 (set_last_size acc off @ [\<lparr>word = w, offset = off, size = None\<rparr>])))"

text \<open>
  \<open>loadKeys\<close> returns the list and the reader with its one-slot cache. The scanner
  object is re-initialised at the start of every use, so its cursor after a use is
  not kept.
\<close>

definition loadKeys :: "mdict \<Rightarrow> kdx \<Rightarrow> error + (key_entry list \<times> mdict)" where
  "loadKeys rd k =
     (let decode_block =
            bindE (readBlock (comp_size k) (decomp_size k) False
                     (forward (kdx_offset k) (init (slicedKeyBlock rd) (scan rd))))
              (\<lambda>scanner. bindE (read_keys (num_entries k) scanner [])
                 (\<lambda>list. Inr (list, rd\<lparr>cached_keys := Some (list, first_word k)\<rparr>)))
      in case cached_keys rd of
           None \<Rightarrow> decode_block
         | Some c \<Rightarrow> if snd c = first_word k then Inr (fst c, rd) else decode_block)"

text \<open>The two look-back loops of \<open>seekVanguard\<close>.\<close>

function look_back :: "(string \<Rightarrow> error + string) \<Rightarrow> kdx list \<Rightarrow> kdx \<Rightarrow> int \<Rightarrow> error + kdx" where
  "look_back ak ki k i =
     (if 0 \<le> i \<and> i < int (length ki)
      then (case ak (last_word (ki ! nat i)) of
              Inl e \<Rightarrow> Inl e
            | Inr a \<Rightarrow>
                (case ak (last_word k) of
                   Inl e \<Rightarrow> Inl e
                 | Inr b \<Rightarrow> if a \<noteq> b then Inr k else look_back ak ki (ki ! nat i) (i - 1)))
      else Inr k)"
  by pat_completeness auto
termination
  by (relation "measure (\<lambda>(ak, ki, k, i). nat (i + 1))") auto

declare look_back.simps [simp del]

fun walk_back :: "(string \<Rightarrow> error + string) \<Rightarrow> key_entry list \<Rightarrow> string \<Rightarrow> nat \<Rightarrow> error + nat" where
  "walk_back ak list phr 0 = Inr 0"
| "walk_back ak list phr (Suc n) =
     (if n < length list
      then (case ak (word (list ! n)) of
              Inl e \<Rightarrow> Inl e
            | Inr a \<Rightarrow>
                (case ak phr of
                   Inl e \<Rightarrow> Inl e
                 | Inr b \<Rightarrow> if a \<noteq> b then Inr (Suc n) else walk_back ak list phr n))
      else Inl TypeError)"

definition seekVanguard :: "mdict \<Rightarrow> string \<Rightarrow> error + ((kdx \<times> int \<times> key_entry list) \<times> mdict)" where
  "seekVanguard rd phrase0 =
     bindE (adaptKey rd phrase0) (\<lambda>phr.
     bindE (reduce (adaptKey rd) (KEY_INDEX rd) phr) (\<lambda>found.
       case found of
         None \<Rightarrow> Inl TypeError
       | Some k0 \<Rightarrow>
           bindE (adaptKey rd (last_word k0)) (\<lambda>lw.
           bindE (if phr \<le> lw then look_back (adaptKey rd) (KEY_INDEX rd) k0 (int (index k0) - 1)
                  else Inr k0) (\<lambda>k.
           bindE (loadKeys rd k) (\<lambda>loaded.
           bindE (shrink (adaptKey rd) (fst loaded) 0 phr) (\<lambda>idx0.
           bindE (walk_back (adaptKey rd) (fst loaded) phr idx0) (\<lambda>idx.
             Inr ((k, min (int idx) (int (length (fst loaded)) - 1), fst loaded),
                  snd loaded))))))))"

text \<open>\<open>list.slice(idx)\<close>: a negative start counts from the end.\<close>

definition slice_from :: "int \<Rightarrow> 'a list \<Rightarrow> 'a list" where
  "slice_from i xs =
     (if i < 0 then drop (nat (max 0 (int (length xs) + i))) xs else drop (nat i) xs)"

section \<open>Paged enumeration (matchKeys, appendMore, followUp)\<close>

text \<open>
  \<open>/([^?*]+)[?*]+/.exec(str)\<close>: the leftmost match starts at the first character
  that is not a wildcard and needs a wildcard after it; group 1 is the run of
  characters up to that wildcard.
\<close>

definition is_wild :: "char \<Rightarrow> bool" where
  "is_wild c = (c = CHR ''?'' \<or> c = CHR ''*'')"

definition exec_prefix :: "string \<Rightarrow> string option" where
  "exec_prefix str =
     (let t = dropWhile is_wild str
      in if t \<noteq> [] \<and> list_ex is_wild t then Some (takeWhile (\<lambda>c. \<not> is_wild c) t) else None)"

text \<open>
  The source of the regular expression built from \<open>str\<close>: the characters
  \<open>. \\ + [ ^ ] $ ( )\<close> are escaped and so stand for themselves, a run of \<open>*\<close> becomes
  \<open>.*\<close>, a \<open>?\<close> becomes \<open>.\<close>, and the whole is put between \<open>^\<close> and \<open>$\<close>. What
  is left with a meaning of its own is \<open>|\<close>, which separates alternatives, and a
  braced quantifier \<open>{n}\<close>, \<open>{n,}\<close> or \<open>{n,m}\<close>; a brace that does not belong to one
  stands for itself. A quantifier needs an atom without a quantifier before it, and
  its bounds in order: otherwise the source is not a pattern.
\<close>

datatype atom = Lit char | Any

type_synonym wc_term = "atom \<times> int \<times> int option"

datatype token = Atom atom | Quantifier int "int option" | Bar

text \<open>The text after an opening brace, when it completes a quantifier, and what follows it.\<close>

definition braces :: "string \<Rightarrow> ((int \<times> int option) \<times> string) option" where
  "braces s =
     (let ds = takeWhile is_digit s; r = dropWhile is_digit s
      in if ds = [] \<or> r = [] then None
         else if hd r = CHR ''}'' then Some ((digits_val 10 ds, Some (digits_val 10 ds)), tl r)
         else if hd r = CHR '',''
         then (let es = takeWhile is_digit (tl r); r' = dropWhile is_digit (tl r)
               in if r' \<noteq> [] \<and> hd r' = CHR ''}''
                  then Some ((digits_val 10 ds, if es = [] then None else Some (digits_val 10 es)),
                             tl r')
                  else None)
         else None)"

function tokens :: "string \<Rightarrow> token list" where
  "tokens [] = []"
| "tokens (c # cs) =
     (if c = CHR ''*'' then Atom Any # Quantifier 0 None # tokens (dropWhile (\<lambda>x. x = CHR ''*'') cs)
      else if c = CHR ''?'' then Atom Any # tokens cs
      else if c = CHR ''|'' then Bar # tokens cs
      else if c = CHR ''{''
      then (case braces cs of
              Some q \<Rightarrow> Quantifier (fst (fst q)) (snd (fst q)) # tokens (snd q)
            | None \<Rightarrow> Atom (Lit c) # tokens cs)
      else Atom (Lit c) # tokens cs)"
  by pat_completeness auto
termination
proof -
  have a: "length (dropWhile is_digit xs) - Suc 0 \<le> length xs" for xs
    using length_dropWhile_le [of is_digit xs] by simp
  have b: "length (dropWhile is_digit (tl (dropWhile is_digit xs))) - Suc 0 \<le> length xs" for xs
    using length_dropWhile_le [of is_digit "tl (dropWhile is_digit xs)"]
      length_dropWhile_le [of is_digit xs] by simp
  show ?thesis
    by (relation "measure length")
       (auto simp: a b length_dropWhile_le less_Suc_eq_le braces_def Let_def split: if_splits)
qed

declare tokens.simps [simp del]

text \<open>
  The alternatives of a token list, each a list of terms: an atom with the bounds of
  its repetition. \<open>None\<close> is the \<open>SyntaxError\<close> of the constructor.
\<close>

fun add_term :: "wc_term \<Rightarrow> wc_term list list option \<Rightarrow> wc_term list list option" where
  "add_term t (Some (a # as)) = Some ((t # a) # as)"
| "add_term t other = None"

fun alternatives :: "token list \<Rightarrow> wc_term list list option" where
  "alternatives [] = Some [[]]"
| "alternatives (Bar # ts) = map_option (\<lambda>as. [] # as) (alternatives ts)"
| "alternatives (Atom a # Quantifier lo hi # ts) =
     (if (case hi of None \<Rightarrow> False | Some h \<Rightarrow> h < lo) then None
      else add_term (a, lo, hi) (alternatives ts))"
| "alternatives (Atom a # ts) = add_term (a, 1, Some 1) (alternatives ts)"
| "alternatives (Quantifier lo hi # ts) = None"

datatype regexp = Invalid_pattern | Pattern "wc_term list list"

definition wildcard :: "string \<Rightarrow> regexp" where
  "wildcard str =
     (case alternatives (tokens str) of None \<Rightarrow> Invalid_pattern | Some as \<Rightarrow> Pattern as)"

text \<open>
  \<open>RegExp.prototype.test\<close> on a string. A dot does not match a line terminator.
  \<open>match_terms ts to_end s\<close>: the terms match a prefix of \<open>s\<close>, all of \<open>s\<close> when
  \<open>to_end\<close> is set. Only the first alternative carries \<open>^\<close> and only the last one
  \<open>$\<close>; an alternative without \<open>^\<close> may match from any position. No regular
  expression exists for \<open>Invalid_pattern\<close>: \<open>matchKeys\<close> has thrown before a test.
\<close>

definition line_terminator :: "char \<Rightarrow> bool" where
  "line_terminator c = (c = CHR 0x0A \<or> c = CHR 0x0D)"

fun atom_test :: "atom \<Rightarrow> char \<Rightarrow> bool" where
  "atom_test (Lit c) x = (x = c)"
| "atom_test Any x = (\<not> line_terminator x)"

function match_terms :: "wc_term list \<Rightarrow> bool \<Rightarrow> string \<Rightarrow> bool" where
  "match_terms [] to_end s = (s = [] \<or> \<not> to_end)"
| "match_terms ((a, lo, hi) # ts) to_end s =
     (if 0 < lo
      then (case s of
              [] \<Rightarrow> False
            | x # xs \<Rightarrow>
                atom_test a x
                \<and> match_terms ((a, lo - 1, map_option (\<lambda>h. h - 1) hi) # ts) to_end xs)
      else (match_terms ts to_end s
            \<or> (hi \<noteq> Some 0
                \<and> (case s of
                      [] \<Rightarrow> False
                    | x # xs \<Rightarrow>
                        atom_test a x
                        \<and> match_terms ((a, 0, map_option (\<lambda>h. h - 1) hi) # ts) to_end xs))))"
  by pat_completeness auto
termination
  by (relation "measures [\<lambda>(ts, to_end, s). length s, \<lambda>(ts, to_end, s). length ts]") auto

declare match_terms.simps [simp del]

fun tails :: "'a list \<Rightarrow> 'a list list" where
  "tails [] = [[]]"
| "tails (x # xs) = (x # xs) # tails xs"

definition search :: "wc_term list \<Rightarrow> bool \<Rightarrow> bool \<Rightarrow> string \<Rightarrow> bool" where
  "search ts at_start to_end s =
     (if at_start then match_terms ts to_end s else list_ex (match_terms ts to_end) (tails s))"

fun test_alternatives :: "wc_term list list \<Rightarrow> bool \<Rightarrow> string \<Rightarrow> bool" where
  "test_alternatives [] at_start s = False"
| "test_alternatives [a] at_start s = search a at_start True s"
| "test_alternatives (a # b # as) at_start s =
     (search a at_start False s \<or> test_alternatives (b # as) False s)"

fun wc_test :: "regexp \<Rightarrow> string \<Rightarrow> bool" where
  "wc_test Invalid_pattern s = False"
| "wc_test (Pattern as) s = test_alternatives as True s"

text \<open>
  \<open>RegExp.prototype.test\<close> converts its argument to a string. The elements of a key
  list are the objects \<open>{word, offset}\<close> that \<open>loadKeys\<close> builds, and the filter
  passes the element itself: the string tested is that of a plain object.
\<close>

definition entry_toString :: "key_entry \<Rightarrow> string" where
  "entry_toString el = ''[object Object]''"

definition tester :: "string \<Rightarrow> regexp \<Rightarrow> key_entry \<Rightarrow> bool" where
  "tester phr w s =
     (if phr \<noteq> [] \<and> last phr = CHR '' '' then wc_test w (entry_toString s)
      else wc_test w (entry_toString s) \<and> CHR '' '' \<notin> set (entry_toString s))"

definition filter_fn :: "nat \<Rightarrow> string \<Rightarrow> regexp \<Rightarrow> key_entry \<Rightarrow> nat \<Rightarrow> trail \<Rightarrow> bool \<times> trail" where
  "filter_fn expectedSize phr w s i t =
     (if count t < expectedSize \<and> tester phr w s
      then (True, t\<lparr>count := count t + 1, total := total t + 1, pos := i + 1\<rparr>)
      else (False, t))"

text \<open>\<open>Array.prototype.filter\<close> with a callback that updates the trail.\<close>

fun filter_st :: "('a \<Rightarrow> nat \<Rightarrow> 's \<Rightarrow> bool \<times> 's) \<Rightarrow> 'a list \<Rightarrow> nat \<Rightarrow> 's \<Rightarrow> 'a list \<times> 's" where
  "filter_st f [] i st = ([], st)"
| "filter_st f (x # xs) i st =
     (let r = f x i st; rest = filter_st f xs (i + 1) (snd r)
      in (if fst r then x # fst rest else fst rest, snd rest))"

definition KEY_INDEX_at :: "mdict \<Rightarrow> int \<Rightarrow> kdx option" where
  "KEY_INDEX_at rd i =
     (if 0 \<le> i \<and> i < int (length (KEY_INDEX rd)) then Some (KEY_INDEX rd ! nat i) else None)"

text \<open>
  \<open>appendMore\<close> calls itself on \<open>KEY_INDEX[nextKdx.index + 1]\<close>, following the
  \<open>index\<close> fields; not returning is the value \<open>None\<close>. The trail is passed
  beside the reader (\<open>this.trail\<close> is set whenever \<open>appendMore\<close> runs), and
  \<open>flt\<close> is the filter when the phrase has a wildcard.
\<close>

partial_function (option) appendMore ::
  "string \<Rightarrow> key_entry list \<Rightarrow> kdx option \<Rightarrow> nat \<Rightarrow> (key_entry \<Rightarrow> nat \<Rightarrow> trail \<Rightarrow> bool \<times> trail) option
     \<Rightarrow> nat \<Rightarrow> mdict \<Rightarrow> trail \<Rightarrow> (error + (key_entry list \<times> mdict \<times> trail)) option" where
  "appendMore wrd list nextKdx expectedSize flt ticket rd t =
     (if ticket \<noteq> mutual_ticket rd then Some (Inl (Thrown ''force terminated''))
      else case flt of
        Some f \<Rightarrow>
          (case nextKdx of
             None \<Rightarrow> Some (Inr (list, rd, if list = [] then t\<lparr>exhausted := True\<rparr> else t))
           | Some nk \<Rightarrow>
               if count t < expectedSize \<and> take (length wrd) (first_word nk) = wrd
               then (case loadKeys rd nk of
                       Inl e \<Rightarrow> Some (Inl e)
                     | Inr loaded \<Rightarrow>
                         (let fr = filter_st f (fst loaded) 0 (t\<lparr>trail_offset := 0, block := index nk\<rparr>)
                          in appendMore wrd (list @ fst fr)
                               (KEY_INDEX_at (snd loaded) (int (index nk) + 1))
                               expectedSize flt ticket (snd loaded) (snd fr)))
               else Some (Inr (list, rd, if list = [] then t\<lparr>exhausted := True\<rparr> else t)))
      | None \<Rightarrow>
          (case nextKdx of
             Some nk \<Rightarrow>
               if expectedSize > length list
               then (case loadKeys rd nk of
                       Inl e \<Rightarrow> Some (Inl e)
                     | Inr loaded \<Rightarrow>
                         appendMore wrd (list @ take (expectedSize - length list) (fst loaded))
                           (KEY_INDEX_at (snd loaded) (int (index nk) + 1))
                           expectedSize flt ticket (snd loaded)
                           (t\<lparr>block := index nk, trail_offset := 0,
                              pos := min (expectedSize - length list) (length (fst loaded))\<rparr>))
               else Some (Inr (take expectedSize list, rd,
                      t\<lparr>pos := (if pos t > expectedSize then expectedSize else pos t),
                        count := length (take expectedSize list),
                        total := total t + length (take expectedSize list)\<rparr>))
           | None \<Rightarrow>
               Some (Inr (take expectedSize list, rd,
                      t\<lparr>pos := (if pos t > expectedSize then expectedSize else pos t),
                        count := length (take expectedSize list),
                        total := total t + length (take expectedSize list)\<rparr>))))"

declare appendMore.simps [code]

definition followUp :: "mdict \<Rightarrow> error + ((kdx \<times> int \<times> key_entry list) \<times> mdict)" where
  "followUp rd =
     (case trail rd of
        None \<Rightarrow> Inl TypeError
      | Some t \<Rightarrow>
          (case KEY_INDEX_at rd (int (block t)) of
             None \<Rightarrow> Inl TypeError
           | Some k \<Rightarrow>
               bindE (loadKeys rd k) (\<lambda>loaded.
                 Inr ((k, min (trail_offset t + int (pos t)) (int (length (fst loaded)) - 1),
                       fst loaded), snd loaded))))"

text \<open>
  \<open>matchKeys(phrase, expectedSize = 0, follow)\<close>. The first two arguments are
  \<open>None\<close> when the caller passes \<open>undefined\<close>; \<open>phrase.trim()\<close> then throws.
  For a phrase with a wildcard the regular expression is constructed first, which
  throws when the source is not a pattern.
\<close>

definition matchKeys ::
  "mdict \<Rightarrow> string option \<Rightarrow> nat option \<Rightarrow> bool \<Rightarrow> (error + (key_entry list \<times> mdict)) option" where
  "matchKeys rd ph mx follow0 =
     (case ph of
        None \<Rightarrow> Some (Inl TypeError)
      | Some phr \<Rightarrow>
          (let expectedSize = max (case mx of None \<Rightarrow> 0 | Some n \<Rightarrow> n) 10;
               str = toLowerCase (trim phr);
               m = exec_prefix str;
               wrd = (case m of Some w \<Rightarrow> w | None \<Rightarrow> trim phr);
               flt = (case m of Some w \<Rightarrow> Some (filter_fn expectedSize phr (wildcard str))
                      | None \<Rightarrow> None);
               follow = (case trail rd of
                           Some t \<Rightarrow> if phrase t \<noteq> phr then False else follow0
                         | None \<Rightarrow> follow0)
           in if m \<noteq> None \<and> wildcard str = Invalid_pattern then Some (Inl SyntaxError)
              else if follow \<and> (case trail rd of Some t \<Rightarrow> exhausted t | None \<Rightarrow> False)
              then Some (Inr ([], rd))
              else
                (case (if follow \<and> trail rd \<noteq> None then followUp rd else seekVanguard rd wrd) of
                   Inl e \<Rightarrow> Some (Inl e)
                 | Inr start \<Rightarrow>
                     (let k = fst (fst start); idx = fst (snd (fst start));
                          list = slice_from idx (snd (snd (fst start)));
                          t0 = \<lparr>phrase = phr, block = index k, trail_offset = idx,
                                pos = length list, count = 0,
                                total = (if follow
                                         then (case trail rd of Some t \<Rightarrow> total t | None \<Rightarrow> 0)
                                         else 0),
                                exhausted = False\<rparr>;
                          fr = (case flt of Some f \<Rightarrow> filter_st f list 0 t0 | None \<Rightarrow> (list, t0));
                          rd2 = (snd start)\<lparr>mutual_ticket := mutual_ticket (snd start) + 1\<rparr>
                      in case appendMore wrd (fst fr) (KEY_INDEX_at rd2 (int (index k) + 1))
                                expectedSize flt (mutual_ticket rd2) rd2 (snd fr) of
                           None \<Rightarrow> None
                         | Some (Inl e) \<Rightarrow> Some (Inl e)
                         | Some (Inr res) \<Rightarrow>
                             (let rd3 = fst (snd res); t = snd (snd res);
                                  t' = (if int (block t) = int (length (KEY_INDEX rd3)) - 1
                                        then (case KEY_INDEX_at rd3 (int (block t)) of
                                                None \<Rightarrow> t
                                              | Some kb \<Rightarrow>
                                                  if trail_offset t + int (pos t) \<ge> int (num_entries kb)
                                                  then t\<lparr>exhausted := True\<rparr> else t)
                                        else t)
                              in Some (Inr (fst res, rd3\<lparr>trail := Some t'\<rparr>)))))))"

section \<open>Exact lookup (matchOffset, mdx)\<close>

text \<open>
  \<open>Array.prototype.some\<close> with a callback that may assign a variable of the
  enclosing function: the loop stops at the first truthy result.
\<close>

fun some_st :: "('a \<Rightarrow> 's \<Rightarrow> bool \<times> 's) \<Rightarrow> 'a list \<Rightarrow> 's \<Rightarrow> bool \<times> 's" where
  "some_st f [] st = (False, st)"
| "some_st f (x # xs) st =
     (let r = f x st in if fst r then (True, snd r) else some_st f xs (snd r))"

text \<open>
  \<open>matchOffset\<close>: the callback is an arrow function with a block body and no
  \<open>return\<close>; it assigns \<open>list = [el]\<close> on a match and its result is \<open>undefined\<close>.
\<close>

definition matchOffset :: "key_entry list \<Rightarrow> int \<Rightarrow> key_entry list" where
  "matchOffset list off =
     (let r = some_st (\<lambda>el l. (False, if offset el = off then [el] else l)) list list
      in if fst r then snd r else [])"

text \<open>
  A query is a string or an object; \<open>mdx\<close> reads \<open>word\<close>, \<open>max\<close> and \<open>follow\<close> of
  an object (an absent property is \<open>None\<close>, an absent \<open>follow\<close> is false).
\<close>

record query_object =
  q_word :: "string option"
  q_phrase :: "string option"
  q_max :: "nat option"
  q_follow :: bool

datatype query = Q_string string | Q_object query_object

definition mdx :: "mdict \<Rightarrow> query \<Rightarrow> int option \<Rightarrow> (error + (key_entry list \<times> mdict)) option" where
  "mdx rd q off =
     (case q of
        Q_string s \<Rightarrow>
          Some (bindE (seekVanguard (rd\<lparr>trail := None\<rparr>) (toLowerCase (trim s))) (\<lambda>found.
            let list = slice_from (fst (snd (fst found))) (snd (snd (fst found)))
            in Inr (case off of
                      None \<Rightarrow> list
                    | Some n \<Rightarrow> if n \<noteq> 0 then matchOffset list n else list,
                    snd found)))
      | Q_object ob \<Rightarrow> matchKeys rd (q_word ob) (q_max ob) (q_follow ob))"

section \<open>Record block table and definitions (find, getDefinition)\<close>

text \<open>
  A read of the \<open>Uint32Array\<close>: \<open>undefined\<close> outside the array. A comparison with
  \<open>undefined\<close> is false. Indices stay far below \<open>2^31\<close>, where \<open>>> 1\<close> and
  \<open><< 1\<close> are division and multiplication by two.
\<close>

definition get32 :: "int list \<Rightarrow> int \<Rightarrow> int option" where
  "get32 arr i = (if 0 \<le> i \<and> i < int (length arr) then Some (arr ! nat i) else None)"

definition num_gt :: "int \<Rightarrow> int option \<Rightarrow> bool" where
  "num_gt x v = (case v of None \<Rightarrow> False | Some n \<Rightarrow> x > n)"

definition num_lt :: "int \<Rightarrow> int option \<Rightarrow> bool" where
  "num_lt x v = (case v of None \<Rightarrow> False | Some n \<Rightarrow> x < n)"

record block_desc =
  block_no :: int
  comp_offset :: int
  block_comp_size :: int
  decomp_offset :: int
  block_decomp_size :: int

text \<open>
  What \<open>find\<close> returns: \<open>undefined\<close>, or the descriptor. \<open>Block_NaN\<close> stands for
  a descriptor built from a read outside the array.
\<close>

datatype find_result = Undefined | Block block_desc | Block_NaN

definition make_block :: "int list \<Rightarrow> int \<Rightarrow> find_result" where
  "make_block arr i =
     (case get32 arr (2 * i) of None \<Rightarrow> Block_NaN | Some a \<Rightarrow>
      case get32 arr (2 * i + 1) of None \<Rightarrow> Block_NaN | Some b \<Rightarrow>
      case get32 arr (2 * i + 2) of None \<Rightarrow> Block_NaN | Some c \<Rightarrow>
      case get32 arr (2 * i + 3) of None \<Rightarrow> Block_NaN | Some d \<Rightarrow>
        Block \<lparr>block_no = i, comp_offset = a, block_comp_size = c - a,
               decomp_offset = b, block_decomp_size = d - b\<rparr>)"

text \<open>The \<open>while (true)\<close> loop of \<open>find\<close> on its variables \<open>hi\<close>, \<open>lo\<close>, \<open>i\<close>, \<open>val\<close>.\<close>

partial_function (option) find_loop ::
  "int list \<Rightarrow> int \<Rightarrow> int \<Rightarrow> int \<Rightarrow> int \<Rightarrow> int option \<Rightarrow> find_result option" where
  "find_loop arr keyAt hi lo i val =
     (if hi - lo \<le> 1
      then (if i < hi then Some (make_block arr i) else Some Undefined)
      else (let hi' = (if num_lt keyAt val then i else hi);
                lo' = (if num_lt keyAt val then lo else i);
                i' = (lo' + hi') div 2
            in find_loop arr keyAt hi' lo' i' (get32 arr (2 * i' + 1))))"

declare find_loop.simps [code]

definition find :: "int list \<Rightarrow> int \<Rightarrow> find_result option" where
  "find arr keyAt =
     (let hi = int (length arr) div 2 - 1; lo = 0; i = (lo + hi) div 2;
          val = get32 arr (2 * i + 1)
      in if num_gt keyAt (get32 arr (2 * hi + 1)) \<or> keyAt < 0 then Some Undefined
         else find_loop arr keyAt hi lo i val)"

text \<open>
  \<open>read_record_block\<close>: the table filled from the \<open>(comp_size, decomp_size)\<close> pairs
  of the record block index; storing into the \<open>Uint32Array\<close> keeps the low 32 bits.
\<close>

fun put_blocks :: "int \<Rightarrow> int \<Rightarrow> (int \<times> int) list \<Rightarrow> int list" where
  "put_blocks p0 p1 [] = [p0 mod 2 ^ 32, p1 mod 2 ^ 32]"
| "put_blocks p0 p1 (rdx # rest) =
     (p0 mod 2 ^ 32) # (p1 mod 2 ^ 32) # put_blocks (p0 + fst rdx) (p1 + snd rdx) rest"

definition readDefinition :: "mdict \<Rightarrow> byte list \<Rightarrow> block_desc \<Rightarrow> int \<Rightarrow> error + string" where
  "readDefinition rd input blk off =
     bindE (readBlock (block_comp_size blk) (block_decomp_size blk) False (init input (scan rd)))
       (\<lambda>scanner. bindE (readText (forward (off - decomp_offset blk) scanner))
          (\<lambda>r. Inr (fst r)))"

text \<open>
  \<open>redirects\<close> returns the definition, or what \<open>this.mdx\<close> returns for the text
  after \<open>@@@LINK=\<close>.
\<close>

datatype definition_result = Text string | Entries "key_entry list"

definition redirects :: "mdict \<Rightarrow> string \<Rightarrow> (error + (definition_result \<times> mdict)) option" where
  "redirects rd d =
     (if take 8 d = ''@@@LINK=''
      then (case mdx rd (Q_string (drop 8 d)) None of
              None \<Rightarrow> None
            | Some (Inl e) \<Rightarrow> Some (Inl e)
            | Some (Inr r) \<Rightarrow> Some (Inr (Entries (fst r), snd r)))
      else Some (Inr (Text d, rd)))"

text \<open>
  \<open>getDefinition\<close>. A descriptor with \<open>NaN\<close> fields is never produced by \<open>find\<close>
  (the reads of \<open>make_block\<close> are inside the array whenever the loop returns one); the
  model stops there with \<open>RangeError\<close>.
\<close>

definition getDefinition :: "mdict \<Rightarrow> int \<Rightarrow> (error + (definition_result \<times> mdict)) option" where
  "getDefinition rd off =
     (case find (RECORD_BLOCK_TABLE rd) off of
        None \<Rightarrow> None
      | Some Undefined \<Rightarrow> Some (Inl TypeError)
      | Some Block_NaN \<Rightarrow> Some (Inl RangeError)
      | Some (Block blk) \<Rightarrow>
          (case bindE (readDefinition rd (read rd (comp_offset blk) (block_comp_size blk)) blk off)
                  (\<lambda>d. if length (StyleSheet rd) \<noteq> 0 then parseRes d (StyleSheet rd) else Inr d) of
             Inl e \<Rightarrow> Some (Inl e)
           | Inr d \<Rightarrow> redirects rd d))"

section \<open>Example dictionaries\<close>

text \<open>
  The libraries of the examples: the decoder knows the labels \<open>utf-8\<close>, \<open>utf-16\<close>,
  \<open>utf-16le\<close>, \<open>gbk\<close> and \<open>big5\<close>, in any letter case and between ASCII white
  space, and maps each byte to the character of that code (as a UTF-8 decoder does
  on ASCII bytes); no block of the examples is compressed or encrypted.
\<close>

definition strip_label :: "string \<Rightarrow> string" where
  "strip_label label =
     (let ws = (\<lambda>c. c \<in> set [CHR 0x09, CHR 0x0A, CHR 0x0C, CHR 0x0D, CHR 0x20])
      in toLowerCase (rev (dropWhile ws (rev (dropWhile ws label)))))"

definition ascii_platform :: platform where
  "ascii_platform =
     \<lparr>known_label =
        (\<lambda>label. strip_label label \<in> set [''utf-8'', ''utf-16'', ''utf-16le'', ''gbk'', ''big5'']),
      decode = (\<lambda>label bytes. map (\<lambda>b. char_of (unat b)) bytes),
      inflate = (\<lambda>bytes. None),
      lzo_decompress = (\<lambda>bytes n. None),
      decrypt = (\<lambda>bytes key. bytes)\<rparr>"

text \<open>
  A reader as the constructor leaves it before the header is read: the fields that
  are still \<open>undefined\<close> hold placeholders (\<open>adaptKey\<close>, called then, throws).
\<close>

definition new_Mdict :: "ext \<Rightarrow> (int \<Rightarrow> int \<Rightarrow> byte list) \<Rightarrow> mdict" where
  "new_Mdict e rdf =
     \<lparr>ext = e, read = rdf,
      headerSection = \<lparr>attrs = Map.empty, Encrypted = Integer 0\<rparr>,
      scan = \<lparr>lib = ascii_platform, Encoding = [], v2 = False, buf = [], scan_offset = 0\<rparr>,
      keywordIndexDecryptor = False,
      adaptKey = (\<lambda>key. Inl TypeError),
      StyleSheet = [],
      KEY_INDEX = [], RECORD_BLOCK_TABLE = [], slicedKeyBlock = [],
      cached_keys = None, mutual_ticket = 0, trail = None\<rparr>"

definition bytes_of :: "string \<Rightarrow> byte list" where
  "bytes_of s = map (\<lambda>c. of_nat (of_char c)) s"

definition blob_read :: "byte list \<Rightarrow> int \<Rightarrow> int \<Rightarrow> byte list" where
  "blob_read file off len = take (nat len) (drop (nat off) file)"

text \<open>
  A version 2, UTF-8 dictionary with raw key blocks and one raw record block, given
  by its header attributes, its key index, its key blocks, its record block table
  and its record block. A raw block of version 2 starts with eight header bytes; a
  number is eight bytes, a text ends with a zero byte. The file of the example holds
  the record block alone.
\<close>

definition num64 :: "byte \<Rightarrow> byte list" where
  "num64 n = [0, 0, 0, 0, 0, 0, 0, n]"

definition key_block :: "(string \<times> byte) list \<Rightarrow> byte list" where
  "key_block ws = [0, 0, 0, 0, 0, 0, 0, 0] @ concat (map (\<lambda>w. num64 (snd w) @ bytes_of (fst w) @ [0]) ws)"

definition record_block :: "string list \<Rightarrow> byte list" where
  "record_block ds = [0, 0, 0, 0, 0, 0, 0, 0] @ concat (map (\<lambda>d. bytes_of d @ [0]) ds)"

definition example_reader ::
  "(string \<times> string) list \<Rightarrow> kdx list \<Rightarrow> byte list \<Rightarrow> int list \<Rightarrow> byte list \<Rightarrow> mdict" where
  "example_reader items ks keys table records =
     (case read_header_sect This_undefined ascii_platform
             (Some ((''GeneratedByEngineVersion'', ''2.0'') # (''Encoding'', ''UTF-8'') # items))
             0 (new_Mdict Mdx (blob_read records)) of
        Inl e \<Rightarrow> new_Mdict Mdx (blob_read [])
      | Inr r \<Rightarrow>
          (snd r)\<lparr>KEY_INDEX := ks, slicedKeyBlock := keys, RECORD_BLOCK_TABLE := table\<rparr>)"

text \<open>
  The keyword \<open>cat\<close> (record offset 0) with the definition \<open>@@@LINK=feline\<close>, and
  the keyword \<open>feline\<close> (record offset 15) with the definition \<open>a cat\<close>.
\<close>

definition link_example :: mdict where
  "link_example =
     example_reader [(''KeyCaseSensitive'', ''No''), (''StripKey'', ''Yes'')]
       [\<lparr>num_entries = 2, first_word = ''cat'', last_word = ''feline'',
         comp_size = 35, decomp_size = 27, kdx_offset = 0, index = 0\<rparr>]
       (key_block [(''cat'', 0), (''feline'', 15)])
       (put_blocks 0 0 [(29, 21)])
       (record_block [''@@@LINK=feline'', ''a cat''])"

text \<open>
  A dictionary with the stylesheet attribute \<open>1 <b> 2 <i> /i /b\<close> and one keyword
  whose record uses tag 1 twice.
\<close>

definition style_example :: mdict where
  "style_example =
     example_reader [(''KeyCaseSensitive'', ''No''), (''StripKey'', ''Yes''),
                     (''StyleSheet'', ''1 <b> 2 <i> /i /b'')]
       [\<lparr>num_entries = 1, first_word = ''bold'', last_word = ''bold'',
         comp_size = 21, decomp_size = 13, kdx_offset = 0, index = 0\<rparr>]
       (key_block [(''bold'', 0)])
       (put_blocks 0 0 [(28, 20)])
       (record_block [''see `1`bold`1` word''])"


text \<open>
  A dictionary with two key blocks: \<open>apple\<close>, \<open>apply\<close> in the first and \<open>apt\<close>,
  \<open>bat\<close> in the second.
\<close>

definition two_block_example :: mdict where
  "two_block_example =
     example_reader [(''KeyCaseSensitive'', ''No''), (''StripKey'', ''Yes'')]
       [\<lparr>num_entries = 2, first_word = ''apple'', last_word = ''apply'',
         comp_size = 36, decomp_size = 28, kdx_offset = 0, index = 0\<rparr>,
        \<lparr>num_entries = 2, first_word = ''apt'', last_word = ''bat'',
         comp_size = 32, decomp_size = 24, kdx_offset = 36, index = 1\<rparr>]
       (key_block [(''apple'', 0), (''apply'', 6)] @ key_block [(''apt'', 12), (''bat'', 18)])
       (put_blocks 0 0 [(32, 24)])
       (record_block [''fruit'', ''to do'', ''fit'', ''an animal''])"

section \<open>Notions used by the statements\<close>

text \<open>The pairs of the record block table: \<open>comp_offset\<close> and \<open>decomp_offset\<close> of index \<open>j\<close>.\<close>

definition comp_at :: "int list \<Rightarrow> nat \<Rightarrow> int" where
  "comp_at arr j = arr ! (2 * j)"

definition decomp_at :: "int list \<Rightarrow> nat \<Rightarrow> int" where
  "decomp_at arr j = arr ! (2 * j + 1)"



section \<open>Properties\<close>

subsection \<open>The built-in conversions and the wildcard pattern on examples\<close>

lemma Number_examples:
  "Number ''1'' = Integer 1" "Number '' 12 '' = Integer 12" "Number [] = Integer 0"
  "Number ''<b>'' = NaN" "Number ''/b'' = NaN" "Number ''1.5'' = Dyadic 3 1"
  "Number ''-1'' = Integer (- 1)" "Number ''+2'' = Integer 2" "Number ''1e0'' = Integer 1"
  "Number ''0x1F'' = Integer 31" "Number ''0x'' = NaN" "Number ''.5'' = Dyadic 1 1"
  "Number ''-Infinity'' = Neg_Infinity" "Number ''1e400'' = Pos_Infinity"
  "Number ''0.99999999999999999999'' = Integer 1" "Number ''12px'' = NaN"
  by code_simp+

lemma parseInt_examples:
  "parseInt ''2.0'' = Integer 2" "parseInt ''1.2'' = Integer 1" "parseInt '' -12abc'' = Integer (- 12)"
  "parseInt [] = NaN" "parseInt ''x1'' = NaN"
  "parseInt ''9007199254740993'' = Integer 9007199254740992"
  by code_simp+

lemma wildcard_examples:
  "wc_test (wildcard ''a?c*'') ''abcd''" "\<not> wc_test (wildcard ''a?c*'') ''acd''"
  "wc_test (wildcard ''a.c*'') ''a.cd''" "\<not> wc_test (wildcard ''a.c*'') ''abcd''"
  "wc_test (wildcard ''a|b*'') ''xyzbc''" "wc_test (wildcard ''a|b*'') ''axyz''"
  "\<not> wc_test (wildcard ''a|b*'') ''xa''"
  "wc_test (wildcard ''a{2}*'') ''aaxyz''" "\<not> wc_test (wildcard ''a{2}*'') ''a{2}xyz''"
  "wc_test (wildcard ''a{,2}*'') ''a{,2}xyz''"
  "wildcard ''a*{2}'' = Invalid_pattern" "wildcard ''a{2,1}*'' = Invalid_pattern"
  by code_simp+

lemma matchKeys_bad_pattern:
  "(case mdx two_block_example
          (Q_object \<lparr>q_word = Some ''a*{2}'', q_phrase = None, q_max = None, q_follow = False\<rparr>) None of
      Some (Inl e) \<Rightarrow> e = SyntaxError
    | _ \<Rightarrow> False)"
  by code_simp

subsection \<open>Reading numbers (C3)\<close>

text \<open>
  C3, as stated: for version 2, \<open>readNum\<close> fails whenever the four high bytes of the
  64-bit field are not all zero. The code does not look at them: with the high bytes
  \<open>00 00 00 01\<close> the call returns the low word 5.
\<close>

theorem readNum_v2_counterexample:
  "readNum \<lparr>lib = ascii_platform, Encoding = ''UTF-8'', v2 = True,
            buf = [0, 0, 0, 1, 0, 0, 0, 5], scan_offset = 0\<rparr>
   = Inr (5, \<lparr>lib = ascii_platform, Encoding = ''UTF-8'', v2 = True,
               buf = [0, 0, 0, 1, 0, 0, 0, 5], scan_offset = 8\<rparr>)"
  by (simp add: readNum_def readInt_def forward_def getUint32_def bindE_def)

text \<open>
  C3, amended: for version 2, \<open>readNum\<close> on a 64-bit big-endian field skips the four
  high bytes, whatever they hold, returns the value of the four low bytes and moves
  the cursor by eight.
\<close>

theorem readNum_v2_low_word:
  assumes "v2 s"
    and "buf s = pre @ [h0, h1, h2, h3, b0, b1, b2, b3] @ post"
    and "scan_offset s = int (length pre)"
  shows "readNum s =
           Inr (uint b0 * 16777216 + uint b1 * 65536 + uint b2 * 256 + uint b3,
                s\<lparr>scan_offset := scan_offset s + 8\<rparr>)"
proof -
  have idx: "nat (scan_offset s + 4) = length pre + 4"
    using assms(3) by simp
  have len: "scan_offset s + 4 + 4 \<le> int (length (buf s))" "0 \<le> scan_offset s + 4"
    using assms(2,3) by simp_all
  have bytes: "buf s ! (length pre + 4) = b0" "buf s ! (5 + length pre) = b1"
    "buf s ! (6 + length pre) = b2" "buf s ! (7 + length pre) = b3"
    by (simp_all add: assms(2) nth_append)
  show ?thesis
    using assms(1) len
    by (simp add: readNum_def readInt_def forward_def getUint32_def bindE_def idx bytes)
qed

theorem readNum_v2_low_word_witness:
  "readNum \<lparr>lib = ascii_platform, Encoding = ''UTF-8'', v2 = True,
            buf = [0, 0, 0, 7, 0, 0, 1, 2], scan_offset = 0\<rparr>
   = Inr (258, \<lparr>lib = ascii_platform, Encoding = ''UTF-8'', v2 = True,
                 buf = [0, 0, 0, 7, 0, 0, 1, 2], scan_offset = 8\<rparr>)"
  using readNum_v2_low_word [of "\<lparr>lib = ascii_platform, Encoding = ''UTF-8'', v2 = True,
            buf = [0, 0, 0, 7, 0, 0, 1, 2], scan_offset = 0\<rparr>" "[]" 0 0 0 7 0 0 1 2 "[]"]
  by simp

subsection \<open>The Encrypted attribute (C4)\<close>

lemma foldl_upd_map_of:
  "foldl (\<lambda>m item. m(fst item \<mapsto> snd item)) m0 items = m0 ++ map_of (rev items)"
  by (induction items arbitrary: m0) (auto simp: map_add_def fun_eq_iff split: option.splits)

text \<open>
  C4, as stated: a header whose \<open>Encrypted\<close> attribute is 1 or 3 makes opening fail.
  \<open>read_header_sect\<close> has no such check: for both values it returns normally, with
  the keyword-index decryptor absent for 1 and installed for 3.
\<close>

theorem read_header_sect_encrypted_counterexample:
  "(case read_header_sect This_undefined ascii_platform
           (Some [(''GeneratedByEngineVersion'', ''2.0''), (''Encrypted'', ''1'')])
           100 (new_Mdict Mdx (blob_read [])) of
      Inl e \<Rightarrow> False
    | Inr r \<Rightarrow> fst r = 104 \<and> Encrypted (headerSection (snd r)) = Integer 1
                \<and> keywordIndexDecryptor (snd r) = False)
   \<and>
   (case read_header_sect This_undefined ascii_platform
           (Some [(''GeneratedByEngineVersion'', ''2.0''), (''Encrypted'', ''3'')])
           100 (new_Mdict Mdx (blob_read [])) of
      Inl e \<Rightarrow> False
    | Inr r \<Rightarrow> fst r = 104 \<and> Encrypted (headerSection (snd r)) = Integer 3
                \<and> keywordIndexDecryptor (snd r) = True)"
  by code_simp

text \<open>
  C4, amended: the value of \<open>Encrypted\<close> never makes \<open>read_header_sect\<close> fail.
  Whatever the attributes of the root element are, the call fails only when the text
  decoder does not know the label in \<open>Encoding\<close> (\<open>UTF-16\<close> when that is absent or
  empty), and then with a \<open>RangeError\<close>. Otherwise it completes; \<open>Encrypted\<close>
  becomes the number that \<open>parseInt\<close> reads from the attribute (0 when it is absent
  or not a number), and the keyword-index decryptor is installed exactly when bit
  \<open>0x02\<close> of the 32-bit integer of that number is set (so for 2 and for 3, and not
  for 1).
\<close>

theorem read_header_sect_encrypted:
  "(case read_header_sect this p (Some items) len rd of
      Inl e \<Rightarrow>
        e = RangeError
        \<and> \<not> known_label p
              (js_or (case map_of (rev items) ''Encoding'' of None \<Rightarrow> [] | Some v \<Rightarrow> v) ''UTF-16'')
    | Inr res \<Rightarrow>
        known_label p
          (js_or (case map_of (rev items) ''Encoding'' of None \<Rightarrow> [] | Some v \<Rightarrow> v) ''UTF-16'')
        \<and> fst res = len + 4
        \<and> Encrypted (headerSection (snd res)) =
            (if truthy (parseInt (case map_of (rev items) ''Encrypted'' of
                                    None \<Rightarrow> ''0'' | Some v \<Rightarrow> v))
             then parseInt (case map_of (rev items) ''Encrypted'' of None \<Rightarrow> ''0'' | Some v \<Rightarrow> v)
             else Integer 0)
        \<and> keywordIndexDecryptor (snd res) =
            (keywordIndexDecryptor rd \<or> ToInt32 (Encrypted (headerSection (snd res))) AND 2 \<noteq> 0))"
proof -
  define a0 where "a0 = foldl (\<lambda>m item. m(fst item \<mapsto> snd item)) default_attrs items"
  have a0: "a0 = default_attrs ++ map_of (rev items)"
    by (simp add: a0_def foldl_upd_map_of)
  have enc: "(case a0 ''Encoding'' of None \<Rightarrow> [] | Some v \<Rightarrow> v)
               = (case map_of (rev items) ''Encoding'' of None \<Rightarrow> [] | Some v \<Rightarrow> v)"
    by (simp add: a0 map_add_def default_attrs_def split: option.splits)
  have cry: "(case a0 ''Encrypted'' of None \<Rightarrow> [] | Some v \<Rightarrow> v)
               = (case map_of (rev items) ''Encrypted'' of None \<Rightarrow> ''0'' | Some v \<Rightarrow> v)"
    by (simp add: a0 map_add_def default_attrs_def split: option.splits)
  have label: "js_or (js_or x ''UTF-16'') ''UTF-16LE'' = js_or x ''UTF-16''" for x
    by (simp add: js_or_def)
  show ?thesis
    unfolding read_header_sect_def new_Scan_def
    by (simp add: Let_def bindE_def attr_def label enc cry flip: a0_def)
qed

text \<open>
  The header of the claim with \<open>Encrypted="2"\<close>; a header with an encoding that the
  decoder of the examples does not know; and a value of \<open>Encrypted\<close> above \<open>2^53\<close>,
  where \<open>parseInt\<close> rounds away the bit that the decimal digits have.
\<close>

lemma read_header_sect_examples:
  "(case read_header_sect This_undefined ascii_platform
           (Some [(''GeneratedByEngineVersion'', ''2.0''), (''Encrypted'', ''2'')])
           100 (new_Mdict Mdx (blob_read [])) of
      Inl e \<Rightarrow> False
    | Inr r \<Rightarrow> fst r = 104 \<and> keywordIndexDecryptor (snd r) = True)"
  "(case read_header_sect This_undefined ascii_platform
           (Some [(''GeneratedByEngineVersion'', ''2.0''), (''Encoding'', ''KLINGON'')])
           100 (new_Mdict Mdx (blob_read [])) of
      Inl e \<Rightarrow> e = RangeError
    | Inr r \<Rightarrow> False)"
  "parseInt ''9007199254740995'' = Integer 9007199254740996"
  "(case read_header_sect This_undefined ascii_platform
           (Some [(''GeneratedByEngineVersion'', ''2.0''), (''Encrypted'', ''9007199254740995'')])
           100 (new_Mdict Mdx (blob_read [])) of
      Inl e \<Rightarrow> False
    | Inr r \<Rightarrow> keywordIndexDecryptor (snd r) = False)"
  by code_simp+

subsection \<open>Filtering by record offset (C5)\<close>

lemma matchOffset_empty: "matchOffset list off = []"
proof -
  have "fst (some_st (\<lambda>el l. (False, if offset el = off then [el] else l)) xs st) = False"
    for xs :: "key_entry list" and st
    by (induction xs arbitrary: st) (simp_all add: Let_def)
  then show ?thesis by (simp add: matchOffset_def Let_def)
qed

text \<open>
  C5 says that \<open>getWordList(query, offset)\<close> returns the one entry of the matched tail
  that has the given record offset. In the example the tail for \<open>feline\<close> holds the
  entry with offset 15, and the call with offset 15 returns the empty list: the
  callback of \<open>matchOffset\<close> returns nothing, so \<open>some\<close> is never true.
\<close>

theorem getWordList_offset_example:
  "(case mdx link_example (Q_string ''feline'') None of
      Some (Inr r) \<Rightarrow> map offset (fst r) = [15] | _ \<Rightarrow> False)
   \<and> (case mdx link_example (Q_string ''feline'') (Some 15) of
      Some (Inr r) \<Rightarrow> fst r = [] | _ \<Rightarrow> False)"
  by code_simp

subsection \<open>Stylesheet expansion (C6)\<close>

lemma js_split_no_separator: "c \<notin> set s \<Longrightarrow> js_split c s = [s]"
  by (induction s) auto

lemma parseRes_drops_plain_text:
  assumes "CHR 0x60 \<notin> set s" and "Number s = NaN"
  shows "parseRes s style = Inr []"
  using assms by (simp add: parseRes_def js_split_no_separator)

text \<open>
  C6 says that the stylesheet \<open>1 <b> 2 <i> /i /b\<close> gives entry 1 the pair
  \<open>('<b>', '</b>')\<close> and that the record \<open>see `1`bold`1` word\<close> is returned as
  \<open>see <b>bold</b> word\<close>. The code gives entry 1 the single element \<open>' <b>'\<close>,
  drops the text before the first tag, and appends the missing suffix as the word
  \<open>undefined\<close>.
\<close>

theorem getDefinition_style_example:
  "getGlobalStyle ''1 <b> 2 <i> /i /b'' = [None, Some ['' <b>''], Some ['' <i>'', ''/i'', ''/b'']]
   \<and> parseRes ''see `1`bold`1` word'' (getGlobalStyle ''1 <b> 2 <i> /i /b'')
       = Inr '' <b>boldundefined <b> wordundefined''
   \<and> (case getDefinition style_example 0 of
        Some (Inr r) \<Rightarrow> fst r = Text '' <b>boldundefined <b> wordundefined''
      | _ \<Rightarrow> False)"
  by code_simp

subsection \<open>Following a link (C1)\<close>

lemma redirects_link_gives_entries:
  assumes "take 8 d = ''@@@LINK=''" and "redirects rd d = Some (Inr r)"
  shows "\<exists>es. fst r = Entries es"
  using assms by (auto simp: redirects_def split: option.splits sum.splits)

text \<open>
  C1 says that \<open>getDefinition\<close> of a record that starts with \<open>@@@LINK=\<close> returns the
  definition text of the linked keyword. In the example \<open>cat\<close> (offset 0) links to
  \<open>feline\<close>, whose definition (offset 15) is \<open>a cat\<close>; \<open>getDefinition(0)\<close> returns
  the list of key entries that \<open>mdx\<close> finds for \<open>feline\<close>, not that text.
\<close>

theorem getDefinition_link_example:
  "(case getDefinition link_example 0 of
      Some (Inr r) \<Rightarrow> fst r = Entries [\<lparr>word = ''feline'', offset = 15, size = None\<rparr>]
    | _ \<Rightarrow> False)
   \<and> (case getDefinition link_example 15 of
      Some (Inr r) \<Rightarrow> fst r = Text ''a cat'' | _ \<Rightarrow> False)"
  by code_simp

subsection \<open>The query is trimmed and lowercased first (C10)\<close>

lemma of_char_lt_256: "(of_char c :: nat) < 256"
  by (cases c) (simp add: of_char_def)

lemma is_space_lower_char [simp]: "is_space (lower_char c) = is_space c"
  using of_char_lt_256 [of c]
  by (auto simp: is_space_def lower_char_def Let_def)

lemma lower_char_idem [simp]: "lower_char (lower_char c) = lower_char c"
  using of_char_lt_256 [of c]
  by (auto simp: lower_char_def Let_def)

lemma toLowerCase_idem [simp]: "toLowerCase (toLowerCase s) = toLowerCase s"
  by (simp add: toLowerCase_def)



lemma trim_idem [simp]: "trim (trim s) = trim s"
proof -
  define t where "t = dropWhile is_space s"
  define u where "u = dropWhile is_space (rev t)"
  have "dropWhile is_space (rev u) = rev u"
  proof (cases "u = []")
    case True
    then show ?thesis by simp
  next
    case False
    have split: "rev t = takeWhile is_space (rev t) @ u"
      by (simp add: u_def)
    from False have "t \<noteq> []" by (auto simp: u_def)
    then have "\<not> is_space (hd t)"
      unfolding t_def by (rule hd_dropWhile)
    moreover have "last u = last (rev t)"
      using False split by (metis last_appendR)
    then have "hd (rev u) = hd t"
      using False \<open>t \<noteq> []\<close> by (simp add: hd_rev last_rev)
    ultimately show ?thesis
      using False by (simp add: dropWhile_eq_self_iff)
  qed
  moreover have "dropWhile is_space u = u"
    by (simp add: u_def)
  ultimately show ?thesis
    by (simp add: trim_def t_def [symmetric] u_def [symmetric])
qed




subsection \<open>Binary search in the record block table (C7)\<close>

lemma get32_decomp:
  "2 * j + 1 < length arr \<Longrightarrow> get32 arr (2 * int j + 1) = Some (decomp_at arr j)"
  by (simp add: get32_def decomp_at_def nat_add_distrib nat_mult_distrib)

lemma get32_comp:
  "2 * j < length arr \<Longrightarrow> get32 arr (2 * int j) = Some (comp_at arr j)"
  by (simp add: get32_def comp_at_def nat_mult_distrib)

lemma make_block_in:
  assumes "2 * j + 3 < length arr"
  shows "make_block arr (int j) = Block
           \<lparr>block_no = int j, comp_offset = comp_at arr j,
            block_comp_size = comp_at arr (Suc j) - comp_at arr j,
            decomp_offset = decomp_at arr j,
            block_decomp_size = decomp_at arr (Suc j) - decomp_at arr j\<rparr>"
proof -
  have "get32 arr (2 * int j + 2) = Some (comp_at arr (Suc j))"
    using get32_comp [of "Suc j" arr] assms by (simp add: algebra_simps)
  moreover have "get32 arr (2 * int j + 3) = Some (decomp_at arr (Suc j))"
    using get32_decomp [of "Suc j" arr] assms by (simp add: algebra_simps)
  ultimately show ?thesis
    using assms by (simp add: make_block_def get32_comp get32_decomp)
qed

lemma get32_in: "0 \<le> i \<Longrightarrow> nat i < length arr \<Longrightarrow> get32 arr i = Some (arr ! nat i)"
  by (simp add: get32_def)

lemma find_loop_correct:
  assumes len: "length arr = 2 * (N + 1)"
    and sorted: "\<And>j. j < N \<Longrightarrow> decomp_at arr j \<le> decomp_at arr (Suc j)"
    and lohi: "lo < hi" "hi \<le> N"
    and lo_le: "decomp_at arr lo \<le> p"
    and hi_gt: "hi < N \<Longrightarrow> p < decomp_at arr hi"
  shows "\<exists>r. find_loop arr p (int hi) (int lo) ((int lo + int hi) div 2)
                (get32 arr (2 * ((int lo + int hi) div 2) + 1)) = Some (make_block arr (int r))
             \<and> r < N \<and> decomp_at arr r \<le> p \<and> (\<forall>j<N. decomp_at arr j \<le> p \<longrightarrow> j \<le> r)"
  using lohi lo_le hi_gt
proof (induction "hi - lo" arbitrary: lo hi rule: less_induct)
  case less
  have mono: "decomp_at arr a \<le> decomp_at arr b" if "a \<le> b" "b \<le> N" for a b
    using that
  proof (induction b)
    case 0
    then show ?case by simp
  next
    case (Suc b)
    show ?case
    proof (cases "a = Suc b")
      case True
      then show ?thesis by simp
    next
      case False
      with Suc.prems have "a \<le> b" "b \<le> N" "b < N" by simp_all
      with Suc.IH sorted [of b] show ?thesis by force
    qed
  qed
  show ?case
  proof (cases "hi - lo \<le> 1")
    case True
    with less.prems have hi: "hi = Suc lo" by simp
    have mid: "(int lo + int hi) div 2 = int lo"
      using hi by simp
    have largest: "j \<le> lo" if "j < N" "decomp_at arr j \<le> p" for j
    proof (rule ccontr)
      assume "\<not> j \<le> lo"
      then have "hi \<le> j" using hi by simp
      with that(1) have "hi < N" by simp
      from less.prems(4) [OF this] mono [OF \<open>hi \<le> j\<close>] that show False by simp
    qed
    have "find_loop arr p (int hi) (int lo) ((int lo + int hi) div 2)
            (get32 arr (2 * ((int lo + int hi) div 2) + 1)) = Some (make_block arr (int lo))"
      using hi by (subst find_loop.simps) (simp add: mid)
    moreover have "lo < N" using less.prems hi by simp
    ultimately show ?thesis
      using less.prems(3) largest by blast
  next
    case False
    define m where "m = (lo + hi) div 2"
    have m: "lo < m" "m < hi" using False by (simp_all add: m_def)
    have mid: "(int lo + int hi) div 2 = int m"
      by (simp add: m_def zdiv_int)
    have mN: "m < N" using m less.prems by simp
    have val: "get32 arr (2 * int m + 1) = Some (decomp_at arr m)"
      using mN len by (simp add: get32_decomp)
    have nle: "\<not> int hi - int lo \<le> 1"
      using False by simp
    show ?thesis
    proof (cases "p < decomp_at arr m")
      case True
      have step: "find_loop arr p (int hi) (int lo) ((int lo + int hi) div 2)
            (get32 arr (2 * ((int lo + int hi) div 2) + 1))
          = find_loop arr p (int m) (int lo) ((int lo + int m) div 2)
              (get32 arr (2 * ((int lo + int m) div 2) + 1))"
        using True
        by (subst find_loop.simps) (simp add: nle mid val num_lt_def Let_def)
      have "m - lo < hi - lo" using m by simp
      from less.hyps [OF this m(1) _ less.prems(3)] True mN
      show ?thesis unfolding step by simp
    next
      case ge: False
      have step: "find_loop arr p (int hi) (int lo) ((int lo + int hi) div 2)
            (get32 arr (2 * ((int lo + int hi) div 2) + 1))
          = find_loop arr p (int hi) (int m) ((int m + int hi) div 2)
              (get32 arr (2 * ((int m + int hi) div 2) + 1))"
        using ge
        by (subst find_loop.simps) (simp add: nle mid val num_lt_def Let_def)
      have "hi - m < hi - lo" using m by simp
      from less.hyps [OF this m(2) less.prems(2) _ less.prems(4)] ge
      show ?thesis unfolding step by simp
    qed
  qed
qed

lemma make_block_defined:
  assumes "0 \<le> i" and "2 * i + 3 < int (length arr)"
  shows "make_block arr i \<noteq> Block_NaN"
  using assms by (simp add: make_block_def get32_def)

lemma find_loop_returns:
  assumes "0 \<le> lo" and "lo \<le> hi" and "2 * hi + 1 < int (length arr)"
  shows "\<exists>r. find_loop arr p hi lo ((lo + hi) div 2) v = Some r \<and> r \<noteq> Block_NaN"
  using assms
proof (induction "nat (hi - lo)" arbitrary: lo hi v rule: less_induct)
  case less
  let ?i = "(lo + hi) div 2"
  show ?case
  proof (cases "hi - lo \<le> 1")
    case True
    show ?thesis
    proof (cases "?i < hi")
      case lt: True
      have "0 \<le> ?i" "2 * ?i + 3 < int (length arr)"
        using less.prems lt by simp_all
      then have "make_block arr ?i \<noteq> Block_NaN" by (rule make_block_defined)
      then show ?thesis using True lt by (subst find_loop.simps) simp
    next
      case False
      then show ?thesis using True by (subst find_loop.simps) simp
    qed
  next
    case False
    then have m: "lo < ?i" "?i < hi" by simp_all
    show ?thesis
    proof (cases "num_lt p v")
      case True
      have "nat (?i - lo) < nat (hi - lo)" using m by simp
      from less.hyps [OF this less.prems(1)] m less.prems(3)
      obtain r where "find_loop arr p ?i lo ((lo + ?i) div 2) (get32 arr (2 * ((lo + ?i) div 2) + 1)) = Some r"
          "r \<noteq> Block_NaN"
        by fastforce
      then show ?thesis using False True by (subst find_loop.simps) (simp add: Let_def)
    next
      case ge: False
      have "nat (hi - ?i) < nat (hi - lo)" using m by simp
      from less.hyps [OF this _ _ less.prems(3)] m less.prems(1)
      obtain r where "find_loop arr p hi ?i ((?i + hi) div 2) (get32 arr (2 * ((?i + hi) div 2) + 1)) = Some r"
          "r \<noteq> Block_NaN"
        by fastforce
      then show ?thesis using False ge by (subst find_loop.simps) (simp add: Let_def)
    qed
  qed
qed

lemma find_returns: "\<exists>r. find arr p = Some r \<and> r \<noteq> Block_NaN"
proof (cases "length arr < 2")
  case True
  then have "int (length arr) div 2 - 1 = - 1" by simp
  then show ?thesis
    by (simp add: find_def Let_def) (subst find_loop.simps, simp)
next
  case False
  let ?hi = "int (length arr) div 2 - 1"
  have "0 \<le> ?hi" "2 * ?hi + 1 < int (length arr)" using False by simp_all
  have "\<exists>r. find_loop arr p ?hi 0 ((0 + ?hi) div 2) (get32 arr (2 * ((0 + ?hi) div 2) + 1)) = Some r
          \<and> r \<noteq> Block_NaN"
    using \<open>0 \<le> ?hi\<close> \<open>2 * ?hi + 1 < int (length arr)\<close> by (intro find_loop_returns) simp_all
  then show ?thesis by (auto simp: find_def Let_def)
qed

lemma put_blocks_length: "length (put_blocks p0 p1 rs) = 2 * (length rs + 1)"
  by (induction rs arbitrary: p0 p1) simp_all

lemma put_blocks_decomp:
  "j \<le> length rs \<Longrightarrow>
     decomp_at (put_blocks p0 p1 rs) j = (p1 + sum_list (map snd (take j rs))) mod 2 ^ 32"
proof (induction rs arbitrary: p0 p1 j)
  case Nil
  then show ?case by (simp add: decomp_at_def)
next
  case (Cons r rs)
  show ?case
  proof (cases j)
    case 0
    then show ?thesis by (simp add: decomp_at_def)
  next
    case (Suc j')
    with Cons.prems have "j' \<le> length rs" by simp
    from Cons.IH [OF this, of "p0 + fst r" "p1 + snd r"] Suc
    show ?thesis by (simp add: decomp_at_def add.assoc)
  qed
qed

lemma put_blocks_ascending:
  assumes "\<forall>r\<in>set rs. 0 \<le> snd r" and "sum_list (map snd rs) < 2 ^ 32"
  shows "decomp_at (put_blocks p0 0 rs) 0 = 0
       \<and> (\<forall>j<length rs. decomp_at (put_blocks p0 0 rs) j \<le> decomp_at (put_blocks p0 0 rs) (Suc j))"
proof -
  have nonneg: "0 \<le> sum_list (map snd xs)" if "set xs \<subseteq> set rs" for xs
    using that assms(1) by (induction xs) auto
  have bound: "sum_list (map snd (take j rs)) \<le> sum_list (map snd rs)" for j
  proof -
    have "sum_list (map snd rs) = sum_list (map snd (take j rs)) + sum_list (map snd (drop j rs))"
      by (metis append_take_drop_id map_append sum_list.append)
    moreover have "0 \<le> sum_list (map snd (drop j rs))"
      by (rule nonneg) (simp add: set_drop_subset)
    ultimately show ?thesis by simp
  qed
  have val: "decomp_at (put_blocks p0 0 rs) j = sum_list (map snd (take j rs))" if "j \<le> length rs" for j
  proof -
    have "0 \<le> sum_list (map snd (take j rs))"
      by (rule nonneg) (simp add: set_take_subset)
    moreover have "sum_list (map snd (take j rs)) < 2 ^ 32"
      using bound [of j] assms(2) by simp
    ultimately show ?thesis
      using put_blocks_decomp [OF that, of p0 0] by simp
  qed
  have step: "sum_list (map snd (take j rs)) \<le> sum_list (map snd (take (Suc j) rs))" if "j < length rs" for j
  proof -
    have "0 \<le> snd (rs ! j)" using assms(1) that by simp
    then show ?thesis using that by (simp add: take_Suc_conv_app_nth)
  qed
  show ?thesis
    using val step by (simp add: Suc_leI less_imp_le_nat)
qed

lemma find_largest_block_table:
  assumes len: "length arr = 2 * (N + 1)" and blocks: "1 \<le> N"
    and first: "decomp_at arr 0 = 0"
    and sorted: "\<forall>j<N. decomp_at arr j \<le> decomp_at arr (Suc j)"
  shows "(p < 0 \<or> decomp_at arr N < p \<longrightarrow> find arr p = Some Undefined)
       \<and> (0 \<le> p \<and> p \<le> decomp_at arr N \<longrightarrow>
            (\<exists>i<N. find arr p = Some (Block
                \<lparr>block_no = int i, comp_offset = comp_at arr i,
                 block_comp_size = comp_at arr (Suc i) - comp_at arr i,
                 decomp_offset = decomp_at arr i,
                 block_decomp_size = decomp_at arr (Suc i) - decomp_at arr i\<rparr>)
              \<and> decomp_at arr i \<le> p
              \<and> (\<forall>j<N. decomp_at arr j \<le> p \<longrightarrow> j \<le> i)))"
proof -
  have hi: "int (length arr) div 2 - 1 = int N"
    using len by simp
  have last: "get32 arr (2 * int N + 1) = Some (decomp_at arr N)"
    using len by (simp add: get32_def decomp_at_def nat_add_distrib nat_mult_distrib)
  have out: "find arr p = Some Undefined" if "p < 0 \<or> decomp_at arr N < p"
    using that by (auto simp: find_def Let_def hi last num_gt_def)
  have inside: "\<exists>i<N. find arr p = Some (Block
                \<lparr>block_no = int i, comp_offset = comp_at arr i,
                 block_comp_size = comp_at arr (Suc i) - comp_at arr i,
                 decomp_offset = decomp_at arr i,
                 block_decomp_size = decomp_at arr (Suc i) - decomp_at arr i\<rparr>)
              \<and> decomp_at arr i \<le> p
              \<and> (\<forall>j<N. decomp_at arr j \<le> p \<longrightarrow> j \<le> i)"
    if p: "0 \<le> p" "p \<le> decomp_at arr N"
  proof -
    have "\<exists>r. find_loop arr p (int N) (int 0) ((int 0 + int N) div 2)
                (get32 arr (2 * ((int 0 + int N) div 2) + 1)) = Some (make_block arr (int r))
             \<and> r < N \<and> decomp_at arr r \<le> p \<and> (\<forall>j<N. decomp_at arr j \<le> p \<longrightarrow> j \<le> r)"
      using blocks first p sorted
      by (intro find_loop_correct [OF len]) simp_all
    then obtain r where r: "find_loop arr p (int N) 0 (int N div 2)
          (get32 arr (2 * (int N div 2) + 1)) = Some (make_block arr (int r))"
        "r < N" "decomp_at arr r \<le> p" "\<forall>j<N. decomp_at arr j \<le> p \<longrightarrow> j \<le> r"
      by auto
    have blk: "make_block arr (int r) = Block
                \<lparr>block_no = int r, comp_offset = comp_at arr r,
                 block_comp_size = comp_at arr (Suc r) - comp_at arr r,
                 decomp_offset = decomp_at arr r,
                 block_decomp_size = decomp_at arr (Suc r) - decomp_at arr r\<rparr>"
      using \<open>r < N\<close> len by (intro make_block_in) simp
    have "find arr p = Some (make_block arr (int r))"
      using p r(1) by (simp add: find_def Let_def hi last num_gt_def)
    with blk r show ?thesis by auto
  qed
  from out inside show ?thesis by blast
qed

text \<open>
  C7: for a table populated by \<open>read_record_block\<close> with \<open>N \<ge> 1\<close> record
  blocks and the sentinel pair (the decompressed sizes summing to less than \<open>2^32\<close>,
  so that the stored offsets are the sums), and every integer \<open>p\<close>: \<open>find\<close>
  returns \<open>undefined\<close> when \<open>p\<close> is negative or greater than the last decompressed
  offset; otherwise it returns the descriptor of the block with the largest index
  \<open>i\<close> whose decompressed offset is at most \<open>p\<close>, its sizes being the differences
  to the next pair.
\<close>

theorem find_largest_block:
  assumes "rs \<noteq> []" and "\<forall>r\<in>set rs. 0 \<le> snd r" and "sum_list (map snd rs) < 2 ^ 32"
  shows "(p < 0 \<or> decomp_at (put_blocks p0 0 rs) (length rs) < p
            \<longrightarrow> find (put_blocks p0 0 rs) p = Some Undefined)
       \<and> (0 \<le> p \<and> p \<le> decomp_at (put_blocks p0 0 rs) (length rs) \<longrightarrow>
            (\<exists>i<length rs. find (put_blocks p0 0 rs) p = Some (Block
                \<lparr>block_no = int i, comp_offset = comp_at (put_blocks p0 0 rs) i,
                 block_comp_size = comp_at (put_blocks p0 0 rs) (Suc i) - comp_at (put_blocks p0 0 rs) i,
                 decomp_offset = decomp_at (put_blocks p0 0 rs) i,
                 block_decomp_size =
                   decomp_at (put_blocks p0 0 rs) (Suc i) - decomp_at (put_blocks p0 0 rs) i\<rparr>)
              \<and> decomp_at (put_blocks p0 0 rs) i \<le> p
              \<and> (\<forall>j<length rs. decomp_at (put_blocks p0 0 rs) j \<le> p \<longrightarrow> j \<le> i)))"
proof -
  have "1 \<le> length rs" using assms(1) by (cases rs) simp_all
  with put_blocks_ascending [OF assms(2,3), of p0] show ?thesis
    by (intro find_largest_block_table) (simp_all add: put_blocks_length)
qed

theorem find_largest_block_witness:
  "find (put_blocks 100 0 [(29, 21), (71, 29)]) 30
     = Some (Block \<lparr>block_no = 1, comp_offset = 129, block_comp_size = 71,
                    decomp_offset = 21, block_decomp_size = 29\<rparr>)
   \<and> find (put_blocks 100 0 [(29, 21), (71, 29)]) 50
     = Some (Block \<lparr>block_no = 1, comp_offset = 129, block_comp_size = 71,
                    decomp_offset = 21, block_decomp_size = 29\<rparr>)
   \<and> find (put_blocks 100 0 [(29, 21), (71, 29)]) 51 = Some Undefined
   \<and> find (put_blocks 100 0 [(29, 21), (71, 29)]) (- 1) = Some Undefined"
proof -
  let ?rs = "[(29, 21), (71, 29 :: int)] :: (int \<times> int) list"
  let ?arr = "put_blocks 100 0 ?rs"
  have d: "decomp_at ?arr 0 = 0" "decomp_at ?arr (Suc 0) = 21" "decomp_at ?arr 2 = 50"
      "comp_at ?arr 0 = 100" "comp_at ?arr (Suc 0) = 129" "comp_at ?arr 2 = 200"
    by (simp_all add: decomp_at_def comp_at_def)
  have h: "?rs \<noteq> []" "\<forall>r\<in>set ?rs. 0 \<le> snd r" "sum_list (map snd ?rs) < 2 ^ 32"
    by simp_all
  note fl = find_largest_block [OF h, of _ 100]
  have inside: "find ?arr p = Some (Block \<lparr>block_no = 1, comp_offset = 129, block_comp_size = 71,
                    decomp_offset = 21, block_decomp_size = 29\<rparr>)"
    if p: "21 \<le> p" "p \<le> 50" for p
  proof -
    from fl [of p] p d obtain i where i: "i < 2"
      "find ?arr p = Some (Block
                \<lparr>block_no = int i, comp_offset = comp_at ?arr i,
                 block_comp_size = comp_at ?arr (Suc i) - comp_at ?arr i,
                 decomp_offset = decomp_at ?arr i,
                 block_decomp_size = decomp_at ?arr (Suc i) - decomp_at ?arr i\<rparr>)"
      "\<forall>j<2. decomp_at ?arr j \<le> p \<longrightarrow> j \<le> i"
      by (auto simp: numeral_2_eq_2)
    from i(3) d p have "1 \<le> i" by (auto simp: less_Suc_eq numeral_2_eq_2)
    with i(1) have "i = Suc 0" by simp
    with i(2) d show ?thesis by (simp add: numeral_2_eq_2)
  qed
  from fl [of 51] d have b: "find ?arr 51 = Some Undefined" by (simp add: numeral_2_eq_2)
  from fl [of "- 1"] have c: "find ?arr (- 1) = Some Undefined" by simp
  from inside [of 30] inside [of 50] b c show ?thesis by simp
qed

subsection \<open>The first element of an exact lookup (C8)\<close>











lemma of_char_lower_char:
  "(of_char (lower_char c) :: nat) =
     (if (65 \<le> (of_char c :: nat) \<and> (of_char c :: nat) \<le> 90)
         \<or> (192 \<le> (of_char c :: nat) \<and> (of_char c :: nat) \<le> 222 \<and> (of_char c :: nat) \<noteq> 215)
      then of_char c + 32 else of_char c)"
  using of_char_lt_256 [of c] by (auto simp: lower_char_def Let_def)

lemma strip_chars_codes:
  "c \<in> set strip_chars \<longleftrightarrow> (of_char c :: nat) \<in> {40, 41, 46, 44, 32, 47, 64, 95, 45, 39, 92}"
proof
  assume "c \<in> set strip_chars"
  then show "(of_char c :: nat) \<in> {40, 41, 46, 44, 32, 47, 64, 95, 45, 39, 92}"
    by (auto simp: strip_chars_def)
next
  assume "(of_char c :: nat) \<in> {40, 41, 46, 44, 32, 47, 64, 95, 45, 39, 92}"
  then have "char_of (of_char c :: nat) \<in> char_of ` {40, 41, 46, 44, 32, 47, 64, 95, 45, 39, 92 :: nat}"
    by (rule imageI)
  then have "c \<in> char_of ` {40, 41, 46, 44, 32, 47, 64, 95, 45, 39, 92 :: nat}"
    by (simp only: char_of_char)
  also have "char_of ` {40, 41, 46, 44, 32, 47, 64, 95, 45, 39, 92 :: nat} = set strip_chars"
    by code_simp
  finally show "c \<in> set strip_chars" .
qed

lemma lower_char_strip [simp]: "lower_char c \<in> set strip_chars \<longleftrightarrow> c \<in> set strip_chars"
  unfolding strip_chars_codes of_char_lower_char by auto


lemma strip_mdx_idem [simp]: "strip_mdx (strip_mdx s) = strip_mdx s"
  by (simp add: strip_mdx_def)






subsection \<open>Default of the key stripping (C2)\<close>

lemma getAdaptKey_defaults:
  assumes "\<not> isTrue (attr h ''KeyCaseSensitive'')" and "attr h ''StripKey'' = []"
  shows "getAdaptKey this h e key =
           (case this of
              This_undefined \<Rightarrow> Inl TypeError
            | This_object b \<Rightarrow>
                Inr (if b then toLowerCase key else replace_strip e (toLowerCase key)))"
  using assms
  by (cases this) (simp_all add: getAdaptKey_def this_v2_def bindE_def isTrue_def toLowerCase_def
        lower_char_def Let_def)

lemma reduce_throws:
  "1 < length arr \<Longrightarrow> reduce (\<lambda>key. Inl e) arr phr = Inl e"
  by (subst reduce.simps) simp

text \<open>
  C2 says that a version 1 header with \<open>KeyCaseSensitive\<close> off and no \<open>StripKey\<close>
  attribute makes \<open>adaptKey\<close> lowercase a key and strip the punctuation set, so that
  \<open>Hello-World\<close> becomes \<open>helloworld\<close>. \<open>read_header_sect\<close> calls \<open>getAdaptKey\<close>
  without a receiver, and the function installed reads \<open>this.v2\<close> whenever
  \<open>StripKey\<close> is not set: for such a header the scanner is one of version 1, and
  \<open>adaptKey\<close> throws a \<open>TypeError\<close> on \<open>Hello-World\<close> (on every key, by
  \<open>getAdaptKey_defaults\<close>, and so does the search of a key index of two blocks, by
  \<open>reduce_throws\<close>). A version 2 header gives the same.
\<close>

theorem adaptKey_default_example:
  "(case read_header_sect This_undefined ascii_platform
           (Some [(''GeneratedByEngineVersion'', ''1.2''), (''KeyCaseSensitive'', ''No'')])
           100 (new_Mdict Mdx (blob_read [])) of
      Inl e \<Rightarrow> False
    | Inr r \<Rightarrow> v2 (scan (snd r)) = False
                \<and> attr (headerSection (snd r)) ''StripKey'' = []
                \<and> adaptKey (snd r) ''Hello-World'' = Inl TypeError)
   \<and> replace_strip Mdx (toLowerCase ''Hello-World'') = ''helloworld''
   \<and> (case read_header_sect This_undefined ascii_platform
           (Some [(''GeneratedByEngineVersion'', ''2.0''), (''KeyCaseSensitive'', ''No'')])
           100 (new_Mdict Mdx (blob_read [])) of
      Inl e \<Rightarrow> False
    | Inr r \<Rightarrow> v2 (scan (snd r)) = True
                \<and> adaptKey (snd r) ''Hello-World'' = Inl TypeError)"
  by code_simp

subsection \<open>Paged wildcard enumeration (C9)\<close>

text \<open>
  C9 says that repeated calls with \<open>P*\<close> and \<open>follow\<close> return, page by page, all
  stored keywords that match the wildcard. In the example \<open>apple\<close>, \<open>apply\<close> and
  \<open>apt\<close> match \<open>ap*\<close>, but the first call already returns the empty list and marks
  the trail exhausted: the filter tests the entry object, not its word. With the
  query written \<open>{phrase: 'ap*', follow: true}\<close> the call throws, since \<open>mdx\<close>
  reads the property \<open>word\<close>.
\<close>

theorem matchKeys_wildcard_example:
  "(case mdx two_block_example
          (Q_object \<lparr>q_word = Some ''ap*'', q_phrase = None, q_max = None, q_follow = True\<rparr>) None of
      Some (Inr r) \<Rightarrow> fst r = [] \<and> map_option exhausted (trail (snd r)) = Some True
    | _ \<Rightarrow> False)
   \<and> wc_test (wildcard ''ap*'') ''apple'' \<and> wc_test (wildcard ''ap*'') ''apply''
   \<and> wc_test (wildcard ''ap*'') ''apt''
   \<and> (case mdx two_block_example
          (Q_object \<lparr>q_word = None, q_phrase = Some ''ap*'', q_max = None, q_follow = True\<rparr>) None of
        Some (Inl e) \<Rightarrow> e = TypeError
      | _ \<Rightarrow> False)"
  by code_simp

end
